theory Spec2Isabelle
  imports Complex_Main "HOL-Library.AList"
begin

section \<open>JavaScript values and string primitives\<close>

text \<open>
  Cells of an uploaded sheet are JavaScript primitives. Strings are lists of characters;
  the character tests below cover the ASCII range, which is where the patterns of the
  program (digits, hyphen, at-sign, dot, hexadecimal letters) live.
  A numeric cell is an integer whose \<open>String(n)\<close> is its decimal numeral.
\<close>

datatype jsval = JUndefined | JNull | JBool bool | JNum int | JStr string

fun truthy :: "jsval \<Rightarrow> bool" where
  "truthy JUndefined = False"
| "truthy JNull = False"
| "truthy (JBool b) = b"
| "truthy (JNum n) = (n \<noteq> 0)"
| "truthy (JStr s) = (s \<noteq> [])"

text \<open>The decimal numeral of a natural number, for \<open>String(n)\<close> and for row numbers.\<close>

definition digitChar :: "nat \<Rightarrow> char" where
  "digitChar d = ''0123456789'' ! d"

function decimalDigits :: "nat \<Rightarrow> string" where
  "decimalDigits n =
     (if n < 10 then [digitChar n] else decimalDigits (n div 10) @ [digitChar (n mod 10)])"
  by pat_completeness auto
termination
  by (relation "measure id") auto

declare decimalDigits.simps [simp del]

definition numberToString :: "int \<Rightarrow> string" where
  "numberToString i = (if 0 \<le> i then decimalDigits (nat i) else CHR ''-'' # decimalDigits (nat (- i)))"

fun ToString :: "jsval \<Rightarrow> string" where
  "ToString JUndefined = ''undefined''"
| "ToString JNull = ''null''"
| "ToString (JBool b) = (if b then ''true'' else ''false'')"
| "ToString (JNum n) = numberToString n"
| "ToString (JStr s) = s"

definition isSpace :: "char \<Rightarrow> bool" where
  "isSpace c = (c \<in> set [CHR 0x09, CHR 0x0A, CHR 0x0B, CHR 0x0C, CHR 0x0D, CHR '' ''])"

definition isDigit :: "char \<Rightarrow> bool" where
  "isDigit c = (c \<in> set ''0123456789'')"

definition isHexDigit :: "char \<Rightarrow> bool" where
  "isHexDigit c = (c \<in> set ''0123456789abcdefABCDEF'')"

definition trim :: "string \<Rightarrow> string" where
  "trim s = rev (dropWhile isSpace (rev (dropWhile isSpace s)))"

definition toLowerChar :: "char \<Rightarrow> char" where
  "toLowerChar c =
     (case map_of (zip ''ABCDEFGHIJKLMNOPQRSTUVWXYZ'' ''abcdefghijklmnopqrstuvwxyz'') c of
        Some l \<Rightarrow> l
      | None \<Rightarrow> c)"

definition toLowerCase :: "string \<Rightarrow> string" where
  "toLowerCase s = map toLowerChar s"

definition startsWith :: "string \<Rightarrow> string \<Rightarrow> bool" where
  "startsWith s p = (take (length p) s = p)"

definition endsWith :: "string \<Rightarrow> string \<Rightarrow> bool" where
  "endsWith s p = (length p \<le> length s \<and> drop (length s - length p) s = p)"

text \<open>\<open>s.includes(p)\<close>: \<open>p\<close> occurs in \<open>s\<close> as a contiguous run.\<close>

fun str_includes :: "string \<Rightarrow> string \<Rightarrow> bool" where
  "str_includes [] p = (p = [])"
| "str_includes (c # cs) p = (startsWith (c # cs) p \<or> str_includes cs p)"

text \<open>\<open>xs.join(sep)\<close> on an array of strings.\<close>

fun join :: "string \<Rightarrow> string list \<Rightarrow> string" where
  "join sep [] = []"
| "join sep [x] = x"
| "join sep (x # y # ys) = x @ sep @ join sep (y # ys)"

abbreviation (input) dq :: string where
  "dq \<equiv> [CHR 0x22]"

subsection \<open>The regular expressions of the validator\<close>

text \<open>\<open>/^\d{4}-\d{2}-\d{2}$/\<close>: ten characters, digits around two hyphens.\<close>

definition dateRegex_test :: "string \<Rightarrow> bool" where
  "dateRegex_test s =
     (case s of
        [y1, y2, y3, y4, h1, m1, m2, h2, d1, d2] \<Rightarrow>
          isDigit y1 \<and> isDigit y2 \<and> isDigit y3 \<and> isDigit y4 \<and> h1 = CHR ''-'' \<and>
          isDigit m1 \<and> isDigit m2 \<and> h2 = CHR ''-'' \<and> isDigit d1 \<and> isDigit d2
      | _ \<Rightarrow> False)"

text \<open>
  \<open>/^[^\s@]+@[^\s@]+\.[^\s@]+$/\<close>: a non-empty run free of blanks and at-signs, one
  at-sign, and a run free of blanks and at-signs that has a dot strictly inside it.
\<close>

definition notSpaceAt :: "char \<Rightarrow> bool" where
  "notSpaceAt c = (\<not> isSpace c \<and> c \<noteq> CHR ''@'')"

definition emailRegex_test :: "string \<Rightarrow> bool" where
  "emailRegex_test s =
     (let local = takeWhile notSpaceAt s; rest = dropWhile notSpaceAt s
      in local \<noteq> [] \<and>
         (case rest of
            [] \<Rightarrow> False
          | c # domain \<Rightarrow>
              c = CHR ''@'' \<and> list_all notSpaceAt domain \<and> CHR ''.'' \<in> set (butlast (tl domain))))"

text \<open>
  \<open>/^[0-9a-f]{8}-[0-9a-f]{4}-[0-9a-f]{4}-[0-9a-f]{4}-[0-9a-f]{12}$/i\<close>: five runs of
  hexadecimal digits of either case, of lengths 8, 4, 4, 4 and 12, joined by hyphens.
\<close>

definition hexRun :: "nat \<Rightarrow> string \<Rightarrow> bool" where
  "hexRun n s = (length s = n \<and> list_all isHexDigit s)"

definition uuidRegex_test :: "string \<Rightarrow> bool" where
  "uuidRegex_test s =
     (length s = 36 \<and>
      hexRun 8 (take 8 s) \<and> take 1 (drop 8 s) = ''-'' \<and>
      hexRun 4 (take 4 (drop 9 s)) \<and> take 1 (drop 13 s) = ''-'' \<and>
      hexRun 4 (take 4 (drop 14 s)) \<and> take 1 (drop 18 s) = ''-'' \<and>
      hexRun 4 (take 4 (drop 19 s)) \<and> take 1 (drop 23 s) = ''-'' \<and>
      hexRun 12 (drop 24 s))"

subsection \<open>\<open>isNaN(Number(value))\<close>\<close>

text \<open>
  \<open>Number\<close> of a string trims it; the empty string is 0; otherwise the text has to be a
  numeric literal: a binary, octal or hexadecimal integer with its prefix, or an optionally
  signed \<open>Infinity\<close> or decimal with an optional fraction and exponent.
\<close>

definition allIn :: "string \<Rightarrow> string \<Rightarrow> bool" where
  "allIn cs s = (s \<noteq> [] \<and> list_all (\<lambda>c. c \<in> set cs) s)"

definition stripSign :: "string \<Rightarrow> string" where
  "stripSign s = (case s of [] \<Rightarrow> [] | c # cs \<Rightarrow> if c = CHR ''+'' \<or> c = CHR ''-'' then cs else s)"

definition exponentPart :: "string \<Rightarrow> bool" where
  "exponentPart s =
     (case s of
        [] \<Rightarrow> True
      | c # cs \<Rightarrow> (c = CHR ''e'' \<or> c = CHR ''E'') \<and> allIn ''0123456789'' (stripSign cs))"

definition unsignedDecimal :: "string \<Rightarrow> bool" where
  "unsignedDecimal s =
     (s = ''Infinity'' \<or>
      (let ip = takeWhile isDigit s; r = dropWhile isDigit s
       in case r of
            [] \<Rightarrow> ip \<noteq> []
          | c # cs \<Rightarrow>
              if c = CHR ''.''
              then (ip \<noteq> [] \<or> takeWhile isDigit cs \<noteq> []) \<and> exponentPart (dropWhile isDigit cs)
              else ip \<noteq> [] \<and> exponentPart r))"

definition nonDecimalInteger :: "string \<Rightarrow> bool" where
  "nonDecimalInteger s =
     (case s of
        z # p # ds \<Rightarrow>
          z = CHR ''0'' \<and>
          ((p \<in> set ''bB'' \<and> allIn ''01'' ds) \<or>
           (p \<in> set ''oO'' \<and> allIn ''01234567'' ds) \<or>
           (p \<in> set ''xX'' \<and> allIn ''0123456789abcdefABCDEF'' ds))
      | _ \<Rightarrow> False)"

definition strNumericLiteral :: "string \<Rightarrow> bool" where
  "strNumericLiteral s = (nonDecimalInteger s \<or> unsignedDecimal (stripSign s))"

fun Number_isNaN :: "jsval \<Rightarrow> bool" where
  "Number_isNaN JUndefined = True"
| "Number_isNaN JNull = False"
| "Number_isNaN (JBool b) = False"
| "Number_isNaN (JNum n) = False"
| "Number_isNaN (JStr s) = (trim s \<noteq> [] \<and> \<not> strNumericLiteral (trim s))"

section \<open>The bulk-import component\<close>

subsection \<open>Data model\<close>

text \<open>
  A parsed row is an object from header to cell, kept as an association list in key order;
  reading a header the row does not have gives \<open>undefined\<close>.
\<close>

type_synonym row = "(string \<times> jsval) list"

definition getProp :: "row \<Rightarrow> string \<Rightarrow> jsval" where
  "getProp r k = (case map_of r k of Some v \<Rightarrow> v | None \<Rightarrow> JUndefined)"

definition Object_keys :: "(string \<times> 'v) list \<Rightarrow> string list" where
  "Object_keys obj = map fst obj"

definition hasOwnProperty :: "(string \<times> 'v) list \<Rightarrow> string \<Rightarrow> bool" where
  "hasOwnProperty obj k = (map_of obj k \<noteq> None)"

record ColumnMapping =
  csvColumn :: string
  dbColumn :: string
  similarity :: real
  matched :: bool
  manual :: bool

datatype error_type = Required | Format | Mapping

record ValidationError =
  etype :: error_type
  efield :: "string option"
  erow :: "nat option"
  message :: string
  evalue :: "jsval option"

record ErrorSection =
  stype :: error_type
  title :: string
  sec_errors :: "ValidationError list"
  isOpen :: bool

record RowValidation =
  rowIndex :: nat
  rv_errors :: "ValidationError list"
  excluded :: bool

text \<open>
  The properties of the component, with the two tables and the column matcher it imports
  from modules that are given from outside: \<open>AVAILABLE_COLUMNS\<close> (record type to target
  columns), \<open>COLUMN_TYPES\<close> (target column to declared type) and \<open>findBestColumnMatches\<close>.
\<close>

record 'v props =
  requiredFields :: "string list"
  template :: "(string \<times> 'v) list"
  AVAILABLE_COLUMNS :: "string \<rightharpoonup> string list"
  COLUMN_TYPES :: "string \<rightharpoonup> string"
  findBestColumnMatches :: "string list \<Rightarrow> string list \<Rightarrow> ColumnMapping list"

text \<open>The state cells of the component, one field for each \<open>useState\<close>.\<close>

record state =
  errors :: "ValidationError list"
  errorSections :: "ErrorSection list"
  columnMappings :: "ColumnMapping list"
  showMappings :: bool
  csvData :: "row list"
  showPreview :: bool
  isDragging :: bool
  csvColumns :: "string list"
  rowValidations :: "RowValidation list"
  excludeAllInvalid :: bool
  originalRowValidations :: "RowValidation list"

definition initialState :: state where
  "initialState =
     \<lparr>errors = [], errorSections = [], columnMappings = [], showMappings = False,
      csvData = [], showPreview = False, isDragging = False, csvColumns = [],
      rowValidations = [], excludeAllInvalid = False, originalRowValidations = []\<rparr>"

subsection \<open>Record type and target columns\<close>

definition getCurrentStep :: "(string \<times> 'v) list \<Rightarrow> string" where
  "getCurrentStep t =
     (if hasOwnProperty t ''guardian1_name'' then ''students''
      else if hasOwnProperty t ''qualification1'' then ''teachers''
      else if hasOwnProperty t ''admin_user_type'' then ''admins''
      else if hasOwnProperty t ''classroom_name'' then ''classrooms''
      else ''students'')"

definition availableColumns :: "'v props \<Rightarrow> string list" where
  "availableColumns P =
     (case AVAILABLE_COLUMNS P (getCurrentStep (template P)) of
        Some cols \<Rightarrow> cols
      | None \<Rightarrow> [])"

subsection \<open>validateData\<close>

text \<open>
  The five checks of one matched mapping on one row, in the order of the source. Each
  pushes at most one error; \<open>index\<close> is the 0-based position of the row.
\<close>

definition requiredError :: "string \<Rightarrow> nat \<Rightarrow> ValidationError" where
  "requiredError field index =
     \<lparr>etype = Required, efield = Some field, erow = Some (index + 1),
      message = ''Missing required value for '' @ dq @ field @ dq @ '' in row '' @
                decimalDigits (index + 1),
      evalue = None\<rparr>"

definition emailError :: "string \<Rightarrow> nat \<Rightarrow> jsval \<Rightarrow> ValidationError" where
  "emailError field index v =
     \<lparr>etype = Format, efield = Some field, erow = Some (index + 1),
      message = ''Invalid email format in row '' @ decimalDigits (index + 1) @ '': '' @
                dq @ ToString v @ dq,
      evalue = Some v\<rparr>"

definition dateError :: "string \<Rightarrow> nat \<Rightarrow> jsval \<Rightarrow> ValidationError" where
  "dateError field index v =
     \<lparr>etype = Format, efield = Some field, erow = Some (index + 1),
      message = ''Invalid date format in row '' @ decimalDigits (index + 1) @ '' for '' @
                dq @ field @ dq @ ''. Expected YYYY-MM-DD, got '' @ dq @ ToString v @ dq,
      evalue = Some v\<rparr>"

definition numberError :: "string \<Rightarrow> nat \<Rightarrow> jsval \<Rightarrow> ValidationError" where
  "numberError field index v =
     \<lparr>etype = Format, efield = Some field, erow = Some (index + 1),
      message = ''Invalid number format in row '' @ decimalDigits (index + 1) @ '' for '' @
                dq @ field @ dq @ '': '' @ dq @ ToString v @ dq,
      evalue = Some v\<rparr>"

definition uuidError :: "string \<Rightarrow> nat \<Rightarrow> jsval \<Rightarrow> ValidationError" where
  "uuidError field index v =
     \<lparr>etype = Format, efield = Some field, erow = Some (index + 1),
      message = ''Invalid UUID format in row '' @ decimalDigits (index + 1) @ '' for '' @
                dq @ field @ dq @ '': '' @ dq @ ToString v @ dq,
      evalue = Some v\<rparr>"

definition requiredCheck :: "'v props \<Rightarrow> string \<Rightarrow> nat \<Rightarrow> jsval \<Rightarrow> ValidationError list" where
  "requiredCheck P field index v =
     (if field \<in> set (requiredFields P) \<and> (\<not> truthy v \<or> trim (ToString v) = [])
      then [requiredError field index] else [])"

definition emailCheck :: "string \<Rightarrow> nat \<Rightarrow> jsval \<Rightarrow> ValidationError list" where
  "emailCheck field index v =
     (if str_includes (toLowerCase field) ''email'' \<and> truthy v \<and> \<not> emailRegex_test (ToString v)
      then [emailError field index v] else [])"

definition dateCheck :: "string \<Rightarrow> nat \<Rightarrow> jsval \<Rightarrow> ValidationError list" where
  "dateCheck field index v =
     (if str_includes field ''date'' \<and> truthy v \<and> \<not> dateRegex_test (ToString v)
      then [dateError field index v] else [])"

definition numberCheck :: "'v props \<Rightarrow> string \<Rightarrow> nat \<Rightarrow> jsval \<Rightarrow> ValidationError list" where
  "numberCheck P field index v =
     (if (COLUMN_TYPES P field = Some ''numeric'' \<or> COLUMN_TYPES P field = Some ''integer'') \<and>
         truthy v \<and> Number_isNaN v
      then [numberError field index v] else [])"

definition uuidCheck :: "'v props \<Rightarrow> string \<Rightarrow> nat \<Rightarrow> jsval \<Rightarrow> ValidationError list" where
  "uuidCheck P field index v =
     (if COLUMN_TYPES P field = Some ''uuid'' \<and> truthy v \<and> \<not> uuidRegex_test (ToString v)
      then [uuidError field index v] else [])"

definition validateMapping :: "'v props \<Rightarrow> nat \<Rightarrow> row \<Rightarrow> ColumnMapping \<Rightarrow> ValidationError list" where
  "validateMapping P index r mapping =
     (if \<not> matched mapping then []
      else let v = getProp r (csvColumn mapping); field = dbColumn mapping
           in requiredCheck P field index v @ emailCheck field index v @ dateCheck field index v @
              numberCheck P field index v @ uuidCheck P field index v)"

definition validateRow :: "'v props \<Rightarrow> ColumnMapping list \<Rightarrow> nat \<Rightarrow> row \<Rightarrow> ValidationError list" where
  "validateRow P ms index r = concat (map (validateMapping P index r) ms)"

text \<open>
  \<open>validateData\<close> reads the mapping list of the render it was created in, so the list is
  an argument here: a handler passes the mapping list of the state it runs in.
\<close>

definition validateData ::
  "'v props \<Rightarrow> ColumnMapping list \<Rightarrow> row list \<Rightarrow> ValidationError list \<times> RowValidation list" where
  "validateData P ms data =
     (concat (map (\<lambda>(index, r). validateRow P ms index r) (enumerate 0 data)),
      map (\<lambda>(index, r). \<lparr>rowIndex = index, rv_errors = validateRow P ms index r, excluded = False\<rparr>)
          (enumerate 0 data))"

subsection \<open>Error sections\<close>

definition typeTitles :: "error_type \<Rightarrow> string" where
  "typeTitles t =
     (case t of
        Mapping \<Rightarrow> ''Column Mapping Errors''
      | Required \<Rightarrow> ''Required Field Errors''
      | Format \<Rightarrow> ''Format Validation Errors'')"

definition updateErrorSections :: "ValidationError list \<Rightarrow> ErrorSection list" where
  "updateErrorSections errs =
     concat (map (\<lambda>t. let es = filter (\<lambda>e. etype e = t) errs
                      in if es \<noteq> []
                         then [\<lparr>stype = t, title = typeTitles t, sec_errors = es, isOpen = True\<rparr>]
                         else [])
                 [Mapping, Required, Format])"

text \<open>\<open>setErrors(newErrors); updateErrorSections(newErrors)\<close>.\<close>

definition reportErrors :: "ValidationError list \<Rightarrow> state \<Rightarrow> state" where
  "reportErrors errs st = st\<lparr>errors := errs, errorSections := updateErrorSections errs\<rparr>"

definition formatError :: "string \<Rightarrow> ValidationError" where
  "formatError msg = \<lparr>etype = Format, efield = None, erow = None, message = msg, evalue = None\<rparr>"

definition mappingError :: "string \<Rightarrow> ValidationError" where
  "mappingError msg = \<lparr>etype = Mapping, efield = None, erow = None, message = msg, evalue = None\<rparr>"

subsection \<open>handleFileUpload\<close>

text \<open>
  An uploaded file is its name together with what the two parsing libraries report for
  its content: Papa Parse (with a header row, empty lines skipped) either completes with
  the data rows or reports an error message; the spreadsheet reader yields the rows of the
  first sheet, throws with a message, or the file cannot be read at all.
\<close>

datatype papa_outcome = PapaComplete "row list" | PapaError string

datatype xlsx_outcome = SheetRows "row list" | XlsxThrows string | ReaderError

record upload =
  file_name :: string
  papa :: papa_outcome
  xlsx :: xlsx_outcome

text \<open>
  The common tail of the two success paths. The setters write the new columns, mappings
  and rows, while \<open>validateData\<close> still runs on the mapping list \<open>ms\<close> of the render
  that started the upload.
\<close>

definition loadRows :: "'v props \<Rightarrow> ColumnMapping list \<Rightarrow> row \<Rightarrow> row list \<Rightarrow> state \<Rightarrow> state" where
  "loadRows P ms first data st =
     (let columns = Object_keys first;
          mappings = findBestColumnMatches P columns (availableColumns P);
          (validationErrors, newRowValidations) = validateData P ms data
      in st\<lparr>csvColumns := columns, columnMappings := mappings, csvData := data,
             errors := validationErrors, rowValidations := newRowValidations,
             originalRowValidations := newRowValidations,
             errorSections := updateErrorSections validationErrors,
             showMappings := True\<rparr>)"

definition handleFileUpload :: "'v props \<Rightarrow> upload option \<Rightarrow> state \<Rightarrow> state" where
  "handleFileUpload P ev st =
     (case ev of
        None \<Rightarrow> st
      | Some file \<Rightarrow>
          let st1 = st\<lparr>errors := [], errorSections := [], showMappings := False,
                       showPreview := False, excludeAllInvalid := False\<rparr>
          in if endsWith (file_name file) ''.csv'' then
               (case papa file of
                  PapaComplete data \<Rightarrow>
                    (case data of
                       [] \<Rightarrow> reportErrors [formatError ''CSV file is empty''] st1
                     | first # _ \<Rightarrow> loadRows P (columnMappings st) first data st1)
                | PapaError msg \<Rightarrow> reportErrors [formatError (''Error parsing CSV: '' @ msg)] st1)
             else if endsWith (file_name file) ''.xlsx'' \<or> endsWith (file_name file) ''.xls'' then
               (case xlsx file of
                  SheetRows jsonData \<Rightarrow>
                    (case jsonData of
                       [] \<Rightarrow> reportErrors [formatError ''Excel file is empty''] st1
                     | first # _ \<Rightarrow> loadRows P (columnMappings st) first jsonData st1)
                | XlsxThrows msg \<Rightarrow>
                    reportErrors [formatError (''Error parsing Excel file: '' @ msg)] st1
                | ReaderError \<Rightarrow> reportErrors [formatError ''Error reading file''] st1)
             else
               reportErrors
                 [formatError ''Invalid file type. Please upload a CSV or Excel file.''] st1)"

subsection \<open>Editing the mapping list\<close>

definition firstOrEmpty :: "string list \<Rightarrow> string" where
  "firstOrEmpty xs = (case xs of [] \<Rightarrow> [] | x # _ \<Rightarrow> x)"

definition handleAddMapping :: "'v props \<Rightarrow> state \<Rightarrow> state" where
  "handleAddMapping P st =
     st\<lparr>columnMappings := columnMappings st @
          [\<lparr>csvColumn = firstOrEmpty (csvColumns st), dbColumn = firstOrEmpty (availableColumns P),
            similarity = 1, matched = True, manual = True\<rparr>]\<rparr>"

definition editedMappings :: "nat \<Rightarrow> string \<Rightarrow> string \<Rightarrow> ColumnMapping list \<Rightarrow> ColumnMapping list" where
  "editedMappings index csv db ms =
     map (\<lambda>(i, mapping).
            if i = index
            then mapping\<lparr>csvColumn := csv, dbColumn := db, matched := True, manual := True,
                         similarity := 1\<rparr>
            else mapping)
         (enumerate 0 ms)"

text \<open>
  \<open>handleSaveMapping\<close> calls \<open>validateData(csvData)\<close> right after \<open>setColumnMappings\<close>;
  the call runs in the same render, whose mapping list is the one before the edit.
\<close>

definition handleSaveMapping :: "'v props \<Rightarrow> nat \<Rightarrow> string \<Rightarrow> string \<Rightarrow> state \<Rightarrow> state" where
  "handleSaveMapping P index csv db st =
     (if db \<notin> set (availableColumns P)
      then st\<lparr>errors := [mappingError ''Invalid column mapping'']\<rparr>
      else let updatedMappings = editedMappings index csv db (columnMappings st);
               (validationErrors, newRowValidations) = validateData P (columnMappings st) (csvData st)
           in st\<lparr>columnMappings := updatedMappings, errors := validationErrors,
                  rowValidations := newRowValidations,
                  originalRowValidations := newRowValidations,
                  errorSections := updateErrorSections validationErrors\<rparr>)"

definition validateRequiredColumns :: "'v props \<Rightarrow> ColumnMapping list \<Rightarrow> ValidationError list" where
  "validateRequiredColumns P mappings =
     (let missingRequired =
            filter (\<lambda>field. \<not> list_ex (\<lambda>m. dbColumn m = field \<and> matched m) mappings)
                   (requiredFields P)
      in if missingRequired \<noteq> []
         then [mappingError (''Missing required columns: '' @ join '', '' missingRequired)]
         else [])"

definition handleDeleteMapping :: "nat \<Rightarrow> state \<Rightarrow> state" where
  "handleDeleteMapping index st =
     st\<lparr>columnMappings :=
          map snd (filter (\<lambda>(i, _). i \<noteq> index) (enumerate 0 (columnMappings st)))\<rparr>"

definition handleShowPreview :: "'v props \<Rightarrow> state \<Rightarrow> state" where
  "handleShowPreview P st =
     (let validationErrors = validateRequiredColumns P (columnMappings st)
      in if validationErrors \<noteq> [] then reportErrors validationErrors st
         else st\<lparr>showPreview := True\<rparr>)"

subsection \<open>Row exclusion and import\<close>

definition toggleRowExclusion :: "nat \<Rightarrow> state \<Rightarrow> state" where
  "toggleRowExclusion idx st =
     st\<lparr>rowValidations :=
          map (\<lambda>r. if rowIndex r = idx then r\<lparr>excluded := \<not> excluded r\<rparr> else r)
              (rowValidations st)\<rparr>"

definition toggleExcludeAllInvalid :: "state \<Rightarrow> state" where
  "toggleExcludeAllInvalid st =
     (let newValue = \<not> excludeAllInvalid st
      in if newValue
         then st\<lparr>excludeAllInvalid := newValue,
                 originalRowValidations := rowValidations st,
                 rowValidations :=
                   map (\<lambda>r. r\<lparr>excluded := (if rv_errors r \<noteq> [] then True else excluded r)\<rparr>)
                       (rowValidations st)\<rparr>
         else st\<lparr>excludeAllInvalid := newValue, rowValidations := originalRowValidations st\<rparr>)"

text \<open>
  The filter of \<open>handleImport\<close> reads \<open>rowValidations[index]\<close>, which is \<open>undefined\<close> past
  the end of the list; the optional chaining then keeps the row.
\<close>

definition rowSkipped :: "state \<Rightarrow> nat \<Rightarrow> bool" where
  "rowSkipped st index =
     (if index < length (rowValidations st)
      then excluded (rowValidations st ! index) \<or>
           (excludeAllInvalid st \<and> rv_errors (rowValidations st ! index) \<noteq> [])
      else False)"

text \<open>
  The record built for one row. Writing a property that the record already has replaces
  its value and keeps its place; a new property goes to the end.
\<close>

definition transformRow :: "ColumnMapping list \<Rightarrow> row \<Rightarrow> row" where
  "transformRow ms r =
     foldl (\<lambda>newRow mapping.
              if matched mapping
              then AList.update (dbColumn mapping) (getProp r (csvColumn mapping)) newRow
              else newRow)
           [] ms"

definition includedRows :: "state \<Rightarrow> (nat \<times> row) list" where
  "includedRows st = filter (\<lambda>(index, _). \<not> rowSkipped st index) (enumerate 0 (csvData st))"

text \<open>The value handed to \<open>onImport\<close>.\<close>

definition handleImport :: "state \<Rightarrow> row list" where
  "handleImport st = map (\<lambda>(index, r). transformRow (columnMappings st) r) (includedRows st)"

section \<open>The attendance step\<close>

subsection \<open>Data model\<close>

record Student =
  s_student_id :: string
  s_school_student_id :: "string option"
  s_first_name :: string
  s_last_name :: string

text \<open>
  The numeric fields of a record hold \<open>Number(cell)\<close>; the conversion is the parameter
  \<open>toNumber\<close> of the environment and \<open>'n\<close> is the type of its results.
\<close>

record 'n ExtraData =
  daily_attendance_rate :: "'n option"
  mp1_attendance_rate :: "'n option"
  mp2_attendance_rate :: "'n option"
  mp3_attendance_rate :: "'n option"
  mp4_attendance_rate :: "'n option"

record 'n AttendanceRecord =
  student_id :: string
  school_id :: string
  record_date :: string
  total_days_present :: 'n
  total_days_possible :: 'n
  fy_absences_total :: 'n
  fy_absences_excused :: 'n
  fy_absences_unexcused :: 'n
  fy_tardies_total :: 'n
  attendance_year :: "string option"
  extra_data :: "'n ExtraData option"

text \<open>
  What the step reads from outside: its properties \<open>students\<close> and \<open>schoolId\<close>, the
  form's current \<open>attendance_year\<close>, and three services of the JavaScript engine:
  \<open>Number\<close>, the date part of \<open>new Date(v).toISOString()\<close> (\<open>None\<close> when the time value
  is \<open>NaN\<close>), and the message of the \<open>TypeError\<close> raised by calling a string method on
  a value that is not a string.
\<close>

record 'n att_env =
  students :: "Student list"
  schoolId :: "string option"
  watch_attendance_year :: "string option"
  toNumber :: "jsval \<Rightarrow> 'n"
  nativeDate :: "jsval \<Rightarrow> string option"
  typeErrorMessage :: "jsval \<Rightarrow> string"

text \<open>
  The state of the step: the cached record list, the error banner, and the lists the
  step has handed to \<open>onUpdate\<close>, oldest first.
\<close>

record 'n att_state =
  cachedData :: "'n AttendanceRecord list"
  error :: "string option"
  onUpdate_calls :: "'n AttendanceRecord list list"

text \<open>
  A row of the imported sheet is an array of cells, or something without index
  properties (\<open>null\<close>, \<open>undefined\<close>, a record keyed by column names). Reading a cell past
  the end of an array, or any cell of a non-array, gives \<open>undefined\<close>.
\<close>

datatype rawrow = Arr "jsval list" | NonArray

fun cell :: "rawrow \<Rightarrow> nat \<Rightarrow> jsval" where
  "cell (Arr cs) k = (if k < length cs then cs ! k else JUndefined)"
| "cell NonArray k = JUndefined"

datatype 'r row_outcome = Skipped | Failed string | Accepted 'r

subsection \<open>Shared pieces of the two import paths\<close>

definition jsOr :: "jsval \<Rightarrow> jsval \<Rightarrow> jsval" where
  "jsOr a b = (if truthy a then a else b)"

text \<open>\<open>yearCell.match(/(\d{4}-\d{2,4})/)\<close>: the leftmost match, its second run greedy.\<close>

definition yearMatchAt :: "string \<Rightarrow> string option" where
  "yearMatchAt s =
     (let y = take 4 s; ds = takeWhile isDigit (take 4 (drop 5 s))
      in if length y = 4 \<and> list_all isDigit y \<and> take 1 (drop 4 s) = ''-'' \<and> 2 \<le> length ds
         then Some (y @ ''-'' @ ds) else None)"

fun yearMatch :: "string \<Rightarrow> string option" where
  "yearMatch [] = None"
| "yearMatch (c # cs) =
     (case yearMatchAt (c # cs) of Some m \<Rightarrow> Some m | None \<Rightarrow> yearMatch cs)"

definition attendanceYearFromFile :: "'n att_env \<Rightarrow> rawrow list \<Rightarrow> string option" where
  "attendanceYearFromFile E raw =
     (if 1 < length raw \<and> truthy (cell (raw ! 1) 1)
      then (case yearMatch (ToString (cell (raw ! 1) 1)) of
              Some m \<Rightarrow> Some m
            | None \<Rightarrow> watch_attendance_year E)
      else watch_attendance_year E)"

text \<open>\<open>s.split(/[\/\-]/)\<close> and \<open>s.padStart(2, '0')\<close>.\<close>

fun splitOn :: "(char \<Rightarrow> bool) \<Rightarrow> string \<Rightarrow> string list" where
  "splitOn p [] = [[]]"
| "splitOn p (c # cs) =
     (if p c then [] # splitOn p cs
      else (case splitOn p cs of [] \<Rightarrow> [[c]] | w # ws \<Rightarrow> (c # w) # ws))"

definition padStart2 :: "string \<Rightarrow> string" where
  "padStart2 s = replicate (2 - length s) (CHR ''0'') @ s"

text \<open>
  The date of a row: the engine's reading first, then the three-part fallback; \<open>None\<close>
  is the \<open>throw\<close> that the enclosing \<open>catch\<close> turns into an error of the row.
\<close>

definition parseRecordDate :: "'n att_env \<Rightarrow> jsval \<Rightarrow> string option" where
  "parseRecordDate E resultDate =
     (case nativeDate E resultDate of
        Some d \<Rightarrow> Some d
      | None \<Rightarrow>
          (case splitOn (\<lambda>c. c = CHR ''/'' \<or> c = CHR ''-'') (ToString resultDate) of
             [p0, p1, p2] \<Rightarrow>
               if length p0 = 4 then Some (p0 @ ''-'' @ padStart2 p1 @ ''-'' @ padStart2 p2)
               else Some (p2 @ ''-'' @ padStart2 p0 @ ''-'' @ padStart2 p1)
           | _ \<Rightarrow> None))"

definition rate :: "'n att_env \<Rightarrow> jsval \<Rightarrow> 'n option" where
  "rate E v = (if v \<noteq> JNull \<and> v \<noteq> JUndefined then Some (toNumber E v) else None)"

definition rowLabel :: "nat \<Rightarrow> string" where
  "rowLabel i = ''Row '' @ decimalDigits (i + 1) @ '': ''"

text \<open>The cells a row contributes, under the names the source gives them.\<close>

record rowCells =
  studentId :: jsval
  resultDate :: jsval
  totalDaysPresent :: jsval
  totalDaysPossible :: jsval
  fyAbsencesTotal :: jsval
  fyAbsencesExcused :: jsval
  fyAbsencesUnexcused :: jsval
  fyTardiesTotal :: jsval
  dailyAttendanceRate :: jsval
  mp1AttendanceRate :: jsval
  mp2AttendanceRate :: jsval
  mp3AttendanceRate :: jsval
  mp4AttendanceRate :: jsval

text \<open>
  The body of both loops once the row is known to be an array with a first cell: the
  student lookup, the required values, the date, and the record that is pushed.
\<close>

definition buildRecord ::
  "'n att_env \<Rightarrow> string option \<Rightarrow> nat \<Rightarrow> rowCells \<Rightarrow> 'n AttendanceRecord row_outcome" where
  "buildRecord E year i c =
     (if \<not> truthy (studentId c) then Failed (rowLabel i @ ''Missing student ID'')
      else case find (\<lambda>s. s_school_student_id s = Some (ToString (studentId c))) (students E) of
        None \<Rightarrow>
          Failed (rowLabel i @ ''Student with ID '' @ ToString (studentId c) @ '' not found'')
      | Some student \<Rightarrow>
          if \<not> truthy (resultDate c) \<or> \<not> truthy (totalDaysPresent c) \<or>
             \<not> truthy (totalDaysPossible c) \<or> \<not> truthy (fyAbsencesTotal c) \<or>
             \<not> truthy (fyAbsencesExcused c) \<or> \<not> truthy (fyAbsencesUnexcused c) \<or>
             \<not> truthy (fyTardiesTotal c)
          then Failed (rowLabel i @ ''Missing required attendance data'')
          else
            (case parseRecordDate E (resultDate c) of
               None \<Rightarrow> Failed (rowLabel i @ ''Invalid date format '' @ ToString (resultDate c))
             | Some recordDate \<Rightarrow>
                 let extraData =
                       \<lparr>daily_attendance_rate = rate E (dailyAttendanceRate c),
                        mp1_attendance_rate = rate E (mp1AttendanceRate c),
                        mp2_attendance_rate = rate E (mp2AttendanceRate c),
                        mp3_attendance_rate = rate E (mp3AttendanceRate c),
                        mp4_attendance_rate = rate E (mp4AttendanceRate c)\<rparr>
                 in Accepted
                      \<lparr>student_id = s_student_id student,
                       school_id = (case schoolId E of Some sid \<Rightarrow> sid | None \<Rightarrow> []),
                       record_date = recordDate,
                       total_days_present = toNumber E (totalDaysPresent c),
                       total_days_possible = toNumber E (totalDaysPossible c),
                       fy_absences_total = toNumber E (fyAbsencesTotal c),
                       fy_absences_excused = toNumber E (fyAbsencesExcused c),
                       fy_absences_unexcused = toNumber E (fyAbsencesUnexcused c),
                       fy_tardies_total = toNumber E (fyTardiesTotal c),
                       attendance_year = year,
                       extra_data =
                         (if extraData =
                               \<lparr>daily_attendance_rate = None, mp1_attendance_rate = None,
                                mp2_attendance_rate = None, mp3_attendance_rate = None,
                                mp4_attendance_rate = None\<rparr>
                          then None else Some extraData)\<rparr>))"

text \<open>\<open>!row || !Array.isArray(row) || !row[0]\<close>: the row is passed over.\<close>

definition rowIgnored :: "rawrow \<Rightarrow> bool" where
  "rowIgnored r = (case r of NonArray \<Rightarrow> True | Arr cs \<Rightarrow> \<not> truthy (cell r 0))"

text \<open>The \<open>for\<close> loop: every row from \<open>start\<close> on, pushing to one of the two lists.\<close>

definition importLoop ::
  "(nat \<Rightarrow> rawrow \<Rightarrow> 'r row_outcome) \<Rightarrow> nat \<Rightarrow> rawrow list \<Rightarrow> 'r list \<times> string list" where
  "importLoop step start raw =
     foldl (\<lambda>(processed, importErrors) i.
              case step i (raw ! i) of
                Skipped \<Rightarrow> (processed, importErrors)
              | Failed e \<Rightarrow> (processed, importErrors @ [e])
              | Accepted r \<Rightarrow> (processed @ [r], importErrors))
           ([], []) [start..<length raw]"

text \<open>The end of both paths: all or nothing.\<close>

definition commitOrReject ::
  "'n AttendanceRecord list \<times> string list \<Rightarrow> 'n att_state \<Rightarrow> 'n att_state" where
  "commitOrReject res st =
     (case res of (processed, importErrors) \<Rightarrow>
        if importErrors \<noteq> []
        then st\<lparr>error := Some (join [CHR 0x0A] (take 10 importErrors))\<rparr>
        else let updated = cachedData st @ processed
             in st\<lparr>cachedData := updated, onUpdate_calls := onUpdate_calls st @ [updated],
                    error := None\<rparr>)"

subsection \<open>processLinkItFormat\<close>

definition isLinkItFormat :: "rawrow list \<Rightarrow> bool" where
  "isLinkItFormat raw =
     (7 < length raw \<and> cell (raw ! 0) 0 = JStr ''Export Date'' \<and>
      cell (raw ! 2) 0 = JStr ''District'' \<and> cell (raw ! 7) 0 = JStr ''#'')"

definition linkItCells :: "rawrow \<Rightarrow> rowCells" where
  "linkItCells r =
     \<lparr>studentId = cell r 2, resultDate = cell r 19, totalDaysPresent = cell r 22,
      totalDaysPossible = cell r 23, fyAbsencesTotal = cell r 24, fyAbsencesExcused = cell r 25,
      fyAbsencesUnexcused = cell r 26, fyTardiesTotal = cell r 27,
      dailyAttendanceRate = cell r 21, mp1AttendanceRate = cell r 32,
      mp2AttendanceRate = cell r 43, mp3AttendanceRate = cell r 54,
      mp4AttendanceRate = cell r 65\<rparr>"

definition linkItStep ::
  "'n att_env \<Rightarrow> string option \<Rightarrow> nat \<Rightarrow> rawrow \<Rightarrow> 'n AttendanceRecord row_outcome" where
  "linkItStep E year i r = (if rowIgnored r then Skipped else buildRecord E year i (linkItCells r))"

definition linkItRows :: "'n att_env \<Rightarrow> rawrow list \<Rightarrow> 'n AttendanceRecord list \<times> string list" where
  "linkItRows E raw = importLoop (linkItStep E (attendanceYearFromFile E raw)) 8 raw"

definition processLinkItFormat :: "'n att_env \<Rightarrow> rawrow list \<Rightarrow> 'n att_state \<Rightarrow> 'n att_state" where
  "processLinkItFormat E raw st = commitOrReject (linkItRows E raw) st"

subsection \<open>processStandardFormat\<close>

text \<open>The alias table \<open>AVAILABLE_COLUMNS.attendance\<close> of the step.\<close>

definition attendanceColumns :: "(string \<times> string list) list" where
  "attendanceColumns =
     [(''school_student_id'', [''school student id'', ''id'', ''student id'', ''studentid'']),
      (''record_date'', [''record date'', ''result date'', ''date'']),
      (''total_days_present'', [''total days present'', ''days present'']),
      (''total_days_possible'', [''total days possible'', ''days possible'']),
      (''fy_absences_total'', [''fy absences (total days)'', ''total absences'']),
      (''fy_absences_excused'', [''fy absences (excused days)'', ''excused absences'']),
      (''fy_absences_unexcused'', [''fy absences (unexcused days)'', ''unexcused absences'']),
      (''fy_tardies_total'', [''fy tardies (total days)'', ''total tardies'']),
      (''daily_attendance_rate'', [''daily attendance rate'']),
      (''mp1_attendance_rate'', [''mp1 (daily attendance rate)'', ''mp1 attendance rate'']),
      (''mp2_attendance_rate'', [''mp2 (daily attendance rate)'', ''mp2 attendance rate'']),
      (''mp3_attendance_rate'', [''mp3 (daily attendance rate)'', ''mp3 attendance rate'']),
      (''mp4_attendance_rate'', [''mp4 (daily attendance rate)'', ''mp4 attendance rate''])]"

text \<open>
  The step's own \<open>findBestColumnMatches\<close>: for each header, the first target column whose
  alias list holds the lower-cased, trimmed header; a match is the pair of the target
  column and the header as written.
\<close>

definition att_findBestColumnMatches ::
  "string list \<Rightarrow> (string \<times> string list) list \<Rightarrow> (string \<times> string) list" where
  "att_findBestColumnMatches csvHeaders avail =
     concat (map (\<lambda>csvHeader.
                    case find (\<lambda>ac. trim (toLowerCase csvHeader) \<in> set (snd ac)) avail of
                      Some ac \<Rightarrow> [(fst ac, csvHeader)]
                    | None \<Rightarrow> [])
                 csvHeaders)"

definition findHeaderRow :: "rawrow list \<Rightarrow> nat option" where
  "findHeaderRow raw =
     (case find (\<lambda>i. cell (raw ! i) 0 = JStr ''#'') [0..<min 10 (length raw)] of
        Some i \<Rightarrow> Some i
      | None \<Rightarrow>
          find (\<lambda>i. case raw ! i of
                      NonArray \<Rightarrow> False
                    | Arr cs \<Rightarrow>
                        20 < length cs \<and>
                        str_includes (toLowerCase (ToString (cell (raw ! i) 2))) ''id'' \<and>
                        str_includes (toLowerCase (ToString (cell (raw ! i) 19))) ''result date'')
               [0..<min 10 (length raw)])"

definition buildColumnMap :: "string list \<Rightarrow> (string \<rightharpoonup> nat)" where
  "buildColumnMap headers =
     foldl (\<lambda>columnMap (index, header).
              if header \<noteq> [] then columnMap(toLowerCase (trim header) \<mapsto> index) else columnMap)
           Map.empty (enumerate 0 headers)"

definition getValue ::
  "(string \<rightharpoonup> nat) \<Rightarrow> (string \<times> string) list \<Rightarrow> rawrow \<Rightarrow> string \<Rightarrow> jsval" where
  "getValue columnMap columnMatches r columnName =
     (case columnMap (toLowerCase columnName) of
        Some idx \<Rightarrow> cell r idx
      | None \<Rightarrow>
          (case find (\<lambda>m. fst m = columnName) columnMatches of
             Some bestMatch \<Rightarrow>
               (case columnMap (toLowerCase (snd bestMatch)) of
                  Some idx \<Rightarrow> cell r idx
                | None \<Rightarrow> JNull)
           | None \<Rightarrow> JNull))"

definition standardCells :: "(string \<Rightarrow> jsval) \<Rightarrow> rowCells" where
  "standardCells gv =
     \<lparr>studentId =
        jsOr (jsOr (jsOr (gv ''school_student_id'') (gv ''ID'')) (gv ''Student ID'')) (gv ''StudentID''),
      resultDate = jsOr (jsOr (gv ''record_date'') (gv ''Result Date'')) (gv ''Date''),
      totalDaysPresent =
        jsOr (jsOr (gv ''total_days_present'') (gv ''Total Days Present'')) (gv ''Days Present''),
      totalDaysPossible =
        jsOr (jsOr (gv ''total_days_possible'') (gv ''Total Days Possible'')) (gv ''Days Possible''),
      fyAbsencesTotal =
        jsOr (jsOr (gv ''fy_absences_total'') (gv ''FY Absences (Total Days)'')) (gv ''Total Absences''),
      fyAbsencesExcused =
        jsOr (jsOr (gv ''fy_absences_excused'') (gv ''FY Absences (Excused Days)''))
             (gv ''Excused Absences''),
      fyAbsencesUnexcused =
        jsOr (jsOr (gv ''fy_absences_unexcused'') (gv ''FY Absences (Unexcused Days)''))
             (gv ''Unexcused Absences''),
      fyTardiesTotal =
        jsOr (jsOr (gv ''fy_tardies_total'') (gv ''FY Tardies (Total Days)'')) (gv ''Total Tardies''),
      dailyAttendanceRate = jsOr (gv ''daily_attendance_rate'') (gv ''Daily Attendance Rate''),
      mp1AttendanceRate = jsOr (gv ''mp1_attendance_rate'') (gv ''MP1 (Daily Attendance Rate)''),
      mp2AttendanceRate = jsOr (gv ''mp2_attendance_rate'') (gv ''MP2 (Daily Attendance Rate)''),
      mp3AttendanceRate = jsOr (gv ''mp3_attendance_rate'') (gv ''MP3 (Daily Attendance Rate)''),
      mp4AttendanceRate = jsOr (gv ''mp4_attendance_rate'') (gv ''MP4 (Daily Attendance Rate)'')\<rparr>"

definition standardStep ::
  "'n att_env \<Rightarrow> string option \<Rightarrow> string list \<Rightarrow> nat \<Rightarrow> rawrow \<Rightarrow> 'n AttendanceRecord row_outcome" where
  "standardStep E year headers i r =
     (if rowIgnored r then Skipped
      else buildRecord E year i
             (standardCells
                (getValue (buildColumnMap headers)
                   (att_findBestColumnMatches headers attendanceColumns) r)))"

definition standardRows ::
  "'n att_env \<Rightarrow> rawrow list \<Rightarrow> nat \<Rightarrow> string list \<Rightarrow> 'n AttendanceRecord list \<times> string list" where
  "standardRows E raw headerRowIndex headers =
     importLoop (standardStep E (attendanceYearFromFile E raw) headers) (headerRowIndex + 1) raw"

datatype js_exn = TypeError string

definition isString :: "jsval \<Rightarrow> bool" where
  "isString v = (case v of JStr _ \<Rightarrow> True | _ \<Rightarrow> False)"

text \<open>
  The header cells are used as strings: \<open>csvHeader.toLowerCase()\<close> in the matcher is the
  first call on each of them and throws on a cell that is not a string, before any row
  is read.
\<close>

definition processStandardFormat ::
  "'n att_env \<Rightarrow> rawrow list \<Rightarrow> 'n att_state \<Rightarrow> js_exn + 'n att_state" where
  "processStandardFormat E raw st =
     (case findHeaderRow raw of
        None \<Rightarrow>
          Inr (st\<lparr>error := Some (''Could not locate header row (looking for column '' @ dq @
                                  ''#'' @ dq @ '' or attendance format)'')\<rparr>)
      | Some headerRowIndex \<Rightarrow>
          let headers = (case raw ! headerRowIndex of Arr cs \<Rightarrow> cs | NonArray \<Rightarrow> [])
          in if headers = [] then Inr (st\<lparr>error := Some ''Could not locate header row.''\<rparr>)
             else (case find (\<lambda>v. \<not> isString v) headers of
                     Some v \<Rightarrow> Inl (TypeError (typeErrorMessage E v))
                   | None \<Rightarrow>
                       Inr (commitOrReject
                              (standardRows E raw headerRowIndex (map ToString headers)) st)))"

subsection \<open>handleBulkImport and the import panel of the step\<close>

definition handleBulkImport :: "'n att_env \<Rightarrow> rawrow list \<Rightarrow> 'n att_state \<Rightarrow> 'n att_state" where
  "handleBulkImport E raw st =
     (if isLinkItFormat raw then processLinkItFormat E raw st
      else case processStandardFormat E raw st of
             Inl (TypeError msg) \<Rightarrow> st\<lparr>error := Some (''Import failed: '' @ msg)\<rparr>
           | Inr st' \<Rightarrow> st')"

text \<open>The \<open>requiredFields\<close> and \<open>template\<close> the step passes to the bulk-import component.\<close>

definition attendanceRequiredFields :: "string list" where
  "attendanceRequiredFields =
     [''school_student_id'', ''record_date'', ''total_days_present'', ''total_days_possible'',
      ''fy_absences_total'', ''fy_absences_excused'', ''fy_absences_unexcused'',
      ''fy_tardies_total'']"

definition attendanceTemplate :: "(string \<times> (string + real)) list" where
  "attendanceTemplate =
     [(''school_student_id'', Inl ''S123''), (''record_date'', Inl ''2024-12-31''),
      (''total_days_present'', Inr 180), (''total_days_possible'', Inr 185),
      (''fy_absences_total'', Inr 5), (''fy_absences_excused'', Inr 3),
      (''fy_absences_unexcused'', Inr 2), (''fy_tardies_total'', Inr 8),
      (''attendance_year'', Inl ''2024-2025''), (''daily_attendance_rate'', Inr 97.3),
      (''mp1_attendance_rate'', Inr 95.0), (''mp2_attendance_rate'', Inr 98.5),
      (''mp3_attendance_rate'', Inr 96.8), (''mp4_attendance_rate'', Inr 99.2)]"

section \<open>Example inputs\<close>

text \<open>
  Concrete inputs on which the theorems below are evaluated. The two tables and the
  matcher of \<open>exampleProps\<close> are small stand-ins: three target columns for the
  \<open>students\<close> record type, \<open>record_date\<close> declared a date, and a matcher that maps a
  header to the target column of the same name.
\<close>

definition exactMatcher :: "string list \<Rightarrow> string list \<Rightarrow> ColumnMapping list" where
  "exactMatcher columns avail =
     map (\<lambda>c. \<lparr>csvColumn = c, dbColumn = c, similarity = 1, matched = (c \<in> set avail),
               manual = False\<rparr>)
         columns"

definition exampleProps :: "(string + real) props" where
  "exampleProps =
     \<lparr>requiredFields = attendanceRequiredFields, template = attendanceTemplate,
      AVAILABLE_COLUMNS = [''students'' \<mapsto> [''school_student_id'', ''record_date'', ''first_name'']],
      COLUMN_TYPES = [''record_date'' \<mapsto> ''date''],
      findBestColumnMatches = exactMatcher\<rparr>"

definition idMapping :: ColumnMapping where
  "idMapping =
     \<lparr>csvColumn = ''Student ID'', dbColumn = ''school_student_id'', similarity = 1,
      matched = True, manual = False\<rparr>"

definition dateMapping :: ColumnMapping where
  "dateMapping =
     \<lparr>csvColumn = ''Date'', dbColumn = ''record_date'', similarity = 1, matched = True,
      manual = False\<rparr>"

definition unmatchedDateMapping :: ColumnMapping where
  "unmatchedDateMapping =
     \<lparr>csvColumn = ''Date'', dbColumn = ''first_name'', similarity = 0.2, matched = False,
      manual = False\<rparr>"

definition noError :: "nat \<Rightarrow> RowValidation" where
  "noError i = \<lparr>rowIndex = i, rv_errors = [], excluded = False\<rparr>"

text \<open>A session with one parsed row, both columns mapped, the preview open.\<close>

definition loadedState :: state where
  "loadedState =
     \<lparr>errors = [], errorSections = [], columnMappings = [idMapping, dateMapping],
      showMappings = True,
      csvData = [[(''Student ID'', JStr ''S1''), (''Date'', JStr ''2024-01-05'')]],
      showPreview = True, isDragging = False, csvColumns = [''Student ID'', ''Date''],
      rowValidations = [noError 0], excludeAllInvalid = False,
      originalRowValidations = [noError 0]\<rparr>"

text \<open>A session whose \<open>Date\<close> column is not mapped yet and holds a date in another format.\<close>

definition unmappedDateState :: state where
  "unmappedDateState =
     \<lparr>errors = [], errorSections = [], columnMappings = [idMapping, unmatchedDateMapping],
      showMappings = True,
      csvData = [[(''Student ID'', JStr ''S1''), (''Date'', JStr ''05/01/2024'')]],
      showPreview = False, isDragging = False, csvColumns = [''Student ID'', ''Date''],
      rowValidations = [noError 0], excludeAllInvalid = False,
      originalRowValidations = [noError 0]\<rparr>"

text \<open>
  Three parsed rows: the first excluded by hand, the second with an issue, the third
  clean, and the bulk toggle on or off.
\<close>

definition someIssue :: ValidationError where
  "someIssue = requiredError ''record_date'' 1"

definition threeRows :: "bool \<Rightarrow> state" where
  "threeRows bulk =
     \<lparr>errors = [someIssue], errorSections = updateErrorSections [someIssue],
      columnMappings = [idMapping, dateMapping], showMappings = True,
      csvData = [[(''Student ID'', JStr ''S1''), (''Date'', JStr ''2024-01-05'')],
                 [(''Student ID'', JStr ''S2''), (''Date'', JStr [])],
                 [(''Student ID'', JStr ''S3''), (''Date'', JStr ''2024-01-07'')]],
      showPreview = True, isDragging = False, csvColumns = [''Student ID'', ''Date''],
      rowValidations =
        [\<lparr>rowIndex = 0, rv_errors = [], excluded = True\<rparr>,
         \<lparr>rowIndex = 1, rv_errors = [someIssue], excluded = False\<rparr>,
         noError 2],
      excludeAllInvalid = bulk,
      originalRowValidations =
        [noError 0, \<lparr>rowIndex = 1, rv_errors = [someIssue], excluded = False\<rparr>, noError 2]\<rparr>"

definition emptyCsv :: upload where
  "emptyCsv = \<lparr>file_name = ''empty.csv'', papa = PapaComplete [], xlsx = ReaderError\<rparr>"

text \<open>
  An attendance step with one known student and an engine that reads dates written as
  \<open>YYYY-MM-DD\<close> only, and two sheets, a legacy report and a sheet with a header row.
  In each the first data row is complete and the next four have one defect each: no
  student ID, an unknown student, a missing required cell, a date that cannot be read.
\<close>

definition exampleEnv :: "jsval att_env" where
  "exampleEnv =
     \<lparr>students = [\<lparr>s_student_id = ''u-1'', s_school_student_id = Some ''S1'',
                   s_first_name = ''Ada'', s_last_name = ''Byron''\<rparr>],
      schoolId = Some ''school-1'', watch_attendance_year = Some ''2024-2025'',
      toNumber = (\<lambda>v. v),
      nativeDate = (\<lambda>v. case v of JStr s \<Rightarrow> if dateRegex_test s then Some s else None
                               | _ \<Rightarrow> None),
      typeErrorMessage = (\<lambda>v. ''toLowerCase is not a function'')\<rparr>"

definition exampleAttState :: "jsval att_state" where
  "exampleAttState = \<lparr>cachedData = [], error = None, onUpdate_calls = []\<rparr>"

definition linkItDataRow :: "int \<Rightarrow> jsval \<Rightarrow> jsval \<Rightarrow> jsval \<Rightarrow> rawrow" where
  "linkItDataRow n sid date absences =
     Arr ((replicate 28 JUndefined)
            [0 := JNum n, 2 := sid, 19 := date, 22 := JNum 170, 23 := JNum 180,
             24 := absences, 25 := JNum 6, 26 := JNum 4, 27 := JNum 2])"

definition linkItSheet :: "rawrow list" where
  "linkItSheet =
     [Arr [JStr ''Export Date'', JStr ''2024-06-30''],
      Arr [JStr ''School Year'', JStr ''2023-2024''],
      Arr [JStr ''District'', JStr ''Demo''], Arr [], Arr [], Arr [], Arr [],
      Arr [JStr ''#'', JStr ''Name'', JStr ''ID''],
      linkItDataRow 1 (JStr ''S1'') (JStr ''2024-01-05'') (JNum 10),
      linkItDataRow 2 JUndefined (JStr ''2024-01-05'') (JNum 10),
      linkItDataRow 3 (JStr ''S9'') (JStr ''2024-01-05'') (JNum 10),
      linkItDataRow 4 (JStr ''S1'') (JStr ''2024-01-05'') JUndefined,
      linkItDataRow 5 (JStr ''S1'') (JStr ''soon'') (JNum 10)]"

definition standardHeaders :: "jsval list" where
  "standardHeaders =
     [JStr ''#'', JStr ''Student ID'', JStr ''Date'', JStr ''Days Present'', JStr ''Days Possible'',
      JStr ''Total Absences'', JStr ''Excused Absences'', JStr ''Unexcused Absences'',
      JStr ''Total Tardies'']"

definition standardDataRow :: "int \<Rightarrow> jsval \<Rightarrow> jsval \<Rightarrow> jsval \<Rightarrow> rawrow" where
  "standardDataRow n sid date absences =
     Arr [JNum n, sid, date, JNum 170, JNum 180, absences, JNum 6, JNum 4, JNum 2]"

definition standardSheet :: "rawrow list" where
  "standardSheet =
     [Arr standardHeaders,
      standardDataRow 1 (JStr ''S1'') (JStr ''2024-01-05'') (JNum 10),
      standardDataRow 2 (JStr []) (JStr ''2024-01-05'') (JNum 10),
      standardDataRow 3 (JStr ''S9'') (JStr ''2024-01-05'') (JNum 10),
      standardDataRow 4 (JStr ''S1'') (JStr ''2024-01-05'') (JNum 0),
      standardDataRow 5 (JStr ''S1'') (JStr ''soon'') (JNum 10)]"

section \<open>Properties of the bulk-import component\<close>

subsection \<open>Lists with positions\<close>

lemma map_fst_filter_enumerate:
  "map fst (filter (\<lambda>(i, _). p i) (enumerate n xs)) = filter p [n..<n + length xs]"
proof (induction xs arbitrary: n)
  case Nil
  then show ?case by simp
next
  case (Cons x xs)
  have "[n..<n + length (x # xs)] = n # [Suc n..<Suc n + length xs]"
    by (simp add: upt_rec)
  with Cons.IH [of "Suc n"] show ?case by simp
qed

lemma in_enumerate0: "(i, r) \<in> set (enumerate 0 xs) \<longleftrightarrow> i < length xs \<and> r = xs ! i"
  by (auto simp: in_set_enumerate_eq)

lemma filter_enumerate_above:
  "k < n \<Longrightarrow> map snd (filter (\<lambda>(i, _). i \<noteq> k) (enumerate n xs)) = xs"
  by (induction xs arbitrary: n) auto

lemma filter_enumerate_neq:
  "n \<le> k \<Longrightarrow>
     map snd (filter (\<lambda>(i, _). i \<noteq> k) (enumerate n xs)) = take (k - n) xs @ drop (Suc (k - n)) xs"
proof (induction xs arbitrary: n)
  case Nil
  then show ?case by simp
next
  case (Cons x xs)
  show ?case
  proof (cases "n = k")
    case True
    then show ?thesis by (simp add: filter_enumerate_above)
  next
    case False
    with Cons.prems have "Suc n \<le> k" by simp
    moreover from this have "k - n = Suc (k - Suc n)" by arith
    ultimately show ?thesis
      using Cons.IH [of "Suc n"] False by simp
  qed
qed

subsection \<open>handleImport\<close>

text \<open>
  C1. The records handed to \<open>onImport\<close> are built from the rows that pass the filter, in
  their original order, and the filter lets through exactly the positions that are not
  skipped. A row that passes and has a row validation at its position is not excluded, and
  when the bulk toggle is on its validation has no issue.
\<close>

theorem handleImport_leaves_out_skipped_rows:
  "handleImport st = map (transformRow (columnMappings st) \<circ> snd) (includedRows st)
   \<and> map fst (includedRows st) = filter (\<lambda>i. \<not> rowSkipped st i) [0..<length (csvData st)]
   \<and> list_all (\<lambda>(i, r). i < length (csvData st) \<and> r = csvData st ! i \<and>
         (i < length (rowValidations st) \<longrightarrow>
            \<not> excluded (rowValidations st ! i) \<and>
            (excludeAllInvalid st \<longrightarrow> rv_errors (rowValidations st ! i) = [])))
       (includedRows st)"
proof (intro conjI)
  show "handleImport st = map (transformRow (columnMappings st) \<circ> snd) (includedRows st)"
    by (simp add: handleImport_def comp_def case_prod_unfold)
  show "map fst (includedRows st) = filter (\<lambda>i. \<not> rowSkipped st i) [0..<length (csvData st)]"
    using map_fst_filter_enumerate [of "\<lambda>i. \<not> rowSkipped st i" 0 "csvData st"]
    by (simp add: includedRows_def)
  show "list_all (\<lambda>(i, r). i < length (csvData st) \<and> r = csvData st ! i \<and>
         (i < length (rowValidations st) \<longrightarrow>
            \<not> excluded (rowValidations st ! i) \<and>
            (excludeAllInvalid st \<longrightarrow> rv_errors (rowValidations st ! i) = [])))
       (includedRows st)"
    by (auto simp: list_all_iff includedRows_def in_enumerate0 rowSkipped_def)
qed

theorem handleImport_leaves_out_skipped_rows_witness:
  "map fst (includedRows (threeRows True)) = [2]
   \<and> handleImport (threeRows True) =
       [[(''school_student_id'', JStr ''S3''), (''record_date'', JStr ''2024-01-07'')]]
   \<and> map fst (includedRows (threeRows False)) = [1, 2]"
proof -
  have "filter (\<lambda>i. \<not> rowSkipped (threeRows True) i) [0..<length (csvData (threeRows True))] = [2]"
    by code_simp
  moreover
  have "filter (\<lambda>i. \<not> rowSkipped (threeRows False) i) [0..<length (csvData (threeRows False))] = [1, 2]"
    by code_simp
  moreover
  have "handleImport (threeRows True) =
       [[(''school_student_id'', JStr ''S3''), (''record_date'', JStr ''2024-01-07'')]]"
    by code_simp
  ultimately show ?thesis
    using handleImport_leaves_out_skipped_rows [of "threeRows True"]
      handleImport_leaves_out_skipped_rows [of "threeRows False"]
    by simp
qed

lemma transformRow_Nil: "transformRow [] r = []"
  by (simp add: transformRow_def)

lemma transformRow_snoc:
  "transformRow (ms @ [m]) r =
     (if matched m then AList.update (dbColumn m) (getProp r (csvColumn m)) (transformRow ms r)
      else transformRow ms r)"
  by (simp add: transformRow_def)

lemma map_of_transformRow:
  "map_of (transformRow ms r) k =
     (case filter (\<lambda>m. matched m \<and> dbColumn m = k) ms of
        [] \<Rightarrow> None
      | f # fs \<Rightarrow> Some (getProp r (csvColumn (last (f # fs)))))"
proof (induction ms rule: rev_induct)
  case Nil
  then show ?case by (simp add: transformRow_Nil)
next
  case (snoc m ms)
  then show ?case
    by (auto simp: transformRow_snoc update_conv' split: list.splits)
qed

text \<open>
  C2. Every record of \<open>handleImport\<close> is \<open>transformRow\<close> of an included row; \<open>transformRow\<close>
  starts from the empty record and, mapping by mapping, writes the cell of the source
  column under the target column when the mapping is matched. So the value of a target
  column is the cell named by the last matched mapping that targets it, and a column no
  matched mapping targets is absent. The row \<open>{"Student ID": "S1", "Date": "2024-01-05"}\<close>
  under the two mappings gives \<open>{school_student_id: "S1", record_date: "2024-01-05"}\<close>.
\<close>

theorem transformRow_last_write_wins:
  "handleImport st = map (\<lambda>(index, r). transformRow (columnMappings st) r) (includedRows st)
   \<and> transformRow [] r = []
   \<and> transformRow (ms @ [m]) r =
       (if matched m then AList.update (dbColumn m) (getProp r (csvColumn m)) (transformRow ms r)
        else transformRow ms r)
   \<and> map_of (transformRow ms r) k =
       (case filter (\<lambda>m. matched m \<and> dbColumn m = k) ms of
          [] \<Rightarrow> None
        | f # fs \<Rightarrow> Some (getProp r (csvColumn (last (f # fs)))))
   \<and> handleImport loadedState =
       [[(''school_student_id'', JStr ''S1''), (''record_date'', JStr ''2024-01-05'')]]
   \<and> transformRow [idMapping, dateMapping\<lparr>dbColumn := ''school_student_id''\<rparr>]
        [(''Student ID'', JStr ''S1''), (''Date'', JStr ''2024-01-05'')] =
       [(''school_student_id'', JStr ''2024-01-05'')]"
proof (intro conjI)
  show "handleImport st = map (\<lambda>(index, r). transformRow (columnMappings st) r) (includedRows st)"
    by (simp add: handleImport_def)
  show "handleImport loadedState =
       [[(''school_student_id'', JStr ''S1''), (''record_date'', JStr ''2024-01-05'')]]"
    by code_simp
  show "transformRow [idMapping, dateMapping\<lparr>dbColumn := ''school_student_id''\<rparr>]
        [(''Student ID'', JStr ''S1''), (''Date'', JStr ''2024-01-05'')] =
       [(''school_student_id'', JStr ''2024-01-05'')]"
    by code_simp
qed (rule transformRow_Nil transformRow_snoc map_of_transformRow)+

subsection \<open>toggleExcludeAllInvalid\<close>

text \<open>
  C3. With the bulk toggle off, one call switches it on, keeps the row validations as the
  snapshot and sets \<open>excluded\<close> on every row that has an issue, leaving the other rows as
  they are; a second call right after it puts the row validations back exactly and
  switches the toggle off.
\<close>

theorem toggleExcludeAllInvalid_twice_restores:
  "\<not> excludeAllInvalid st \<Longrightarrow>
     rowValidations (toggleExcludeAllInvalid st) =
       map (\<lambda>r. if rv_errors r \<noteq> [] then r\<lparr>excluded := True\<rparr> else r) (rowValidations st)
   \<and> originalRowValidations (toggleExcludeAllInvalid st) = rowValidations st
   \<and> excludeAllInvalid (toggleExcludeAllInvalid st)
   \<and> rowValidations (toggleExcludeAllInvalid (toggleExcludeAllInvalid st)) = rowValidations st
   \<and> \<not> excludeAllInvalid (toggleExcludeAllInvalid (toggleExcludeAllInvalid st))"
  by (simp add: toggleExcludeAllInvalid_def Let_def cong: map_cong)

theorem toggleExcludeAllInvalid_twice_restores_witness:
  "\<not> excludeAllInvalid (threeRows False)
   \<and> map excluded (rowValidations (threeRows False)) = [True, False, False]
   \<and> map excluded (rowValidations (toggleExcludeAllInvalid (threeRows False))) = [True, True, False]
   \<and> rowValidations (toggleExcludeAllInvalid (toggleExcludeAllInvalid (threeRows False))) =
       rowValidations (threeRows False)"
proof -
  have off: "\<not> excludeAllInvalid (threeRows False)"
    by (simp add: threeRows_def)
  have "map excluded (rowValidations (threeRows False)) = [True, False, False]"
    by (simp add: threeRows_def noError_def)
  moreover
  have "map excluded (map (\<lambda>r. if rv_errors r \<noteq> [] then r\<lparr>excluded := True\<rparr> else r)
          (rowValidations (threeRows False))) = [True, True, False]"
    by (simp add: threeRows_def noError_def)
  ultimately show ?thesis
    using off toggleExcludeAllInvalid_twice_restores [OF off] by simp
qed

subsection \<open>handleDeleteMapping\<close>

text \<open>
  C8. Deleting the mapping at a position takes that one entry out of the mapping list
  (nothing, when the position is past the end) and changes no other part of the state:
  the row validations, their snapshot, the errors and the error sections stay as they
  were. In the three-row session, deleting the date mapping leaves the issue of the
  second row in place although the remaining mapping gives that row no issue.
\<close>

theorem handleDeleteMapping_changes_only_the_mapping_list:
  "handleDeleteMapping index st =
     st\<lparr>columnMappings := take index (columnMappings st) @ drop (Suc index) (columnMappings st)\<rparr>
   \<and> rowValidations (handleDeleteMapping index st) = rowValidations st
   \<and> originalRowValidations (handleDeleteMapping index st) = originalRowValidations st
   \<and> errors (handleDeleteMapping index st) = errors st
   \<and> errorSections (handleDeleteMapping index st) = errorSections st
   \<and> columnMappings (handleDeleteMapping 1 (threeRows False)) = [idMapping]
   \<and> rv_errors (rowValidations (handleDeleteMapping 1 (threeRows False)) ! 1) = [someIssue]
   \<and> validateRow exampleProps [idMapping] 1 (csvData (threeRows False) ! 1) = []"
proof (intro conjI)
  show "columnMappings (handleDeleteMapping 1 (threeRows False)) = [idMapping]"
    by code_simp
  show "rv_errors (rowValidations (handleDeleteMapping 1 (threeRows False)) ! 1) = [someIssue]"
    by (simp add: handleDeleteMapping_def threeRows_def)
  show "validateRow exampleProps [idMapping] 1 (csvData (threeRows False) ! 1) = []"
    by code_simp
qed (simp_all add: handleDeleteMapping_def filter_enumerate_neq)

subsection \<open>getCurrentStep\<close>

lemma hasOwnProperty_iff: "hasOwnProperty t k \<longleftrightarrow> k \<in> fst ` set t"
  by (simp add: hasOwnProperty_def map_of_eq_None_iff)

lemma getCurrentStep_keys:
  "getCurrentStep t =
     (if ''guardian1_name'' \<in> fst ` set t then ''students''
      else if ''qualification1'' \<in> fst ` set t then ''teachers''
      else if ''admin_user_type'' \<in> fst ` set t then ''admins''
      else if ''classroom_name'' \<in> fst ` set t then ''classrooms''
      else ''students'')"
  by (simp add: getCurrentStep_def hasOwnProperty_iff)

lemma getCurrentStep_attendanceTemplate: "getCurrentStep attendanceTemplate = ''students''"
  by (simp add: getCurrentStep_def hasOwnProperty_def attendanceTemplate_def)

text \<open>
  C9. The record type is read off the keys of the template, in the order
  \<open>guardian1_name\<close>, \<open>qualification1\<close>, \<open>admin_user_type\<close>, \<open>classroom_name\<close>, and is
  \<open>students\<close> when none of them is a key. The template of the attendance step has none of
  the four, so with it the allowed target columns are those of \<open>students\<close> (none, if the
  table has no such entry).
\<close>

theorem getCurrentStep_by_template_keys:
  "getCurrentStep t =
     (if ''guardian1_name'' \<in> fst ` set t then ''students''
      else if ''qualification1'' \<in> fst ` set t then ''teachers''
      else if ''admin_user_type'' \<in> fst ` set t then ''admins''
      else if ''classroom_name'' \<in> fst ` set t then ''classrooms''
      else ''students'')
   \<and> getCurrentStep attendanceTemplate = ''students''
   \<and> availableColumns (P\<lparr>template := attendanceTemplate\<rparr>) =
       (case AVAILABLE_COLUMNS P ''students'' of Some cols \<Rightarrow> cols | None \<Rightarrow> [])
   \<and> availableColumns exampleProps = [''school_student_id'', ''record_date'', ''first_name'']"
proof (intro conjI)
  show "availableColumns exampleProps = [''school_student_id'', ''record_date'', ''first_name'']"
    by (simp add: availableColumns_def exampleProps_def getCurrentStep_attendanceTemplate)
  show "availableColumns (P\<lparr>template := attendanceTemplate\<rparr>) =
       (case AVAILABLE_COLUMNS P ''students'' of Some cols \<Rightarrow> cols | None \<Rightarrow> [])"
    by (simp add: availableColumns_def getCurrentStep_attendanceTemplate)
qed (rule getCurrentStep_keys getCurrentStep_attendanceTemplate)+

subsection \<open>validateData\<close>

lemma validateData_snd_length: "length (snd (validateData P ms data)) = length data"
  by (simp add: validateData_def)

lemma validateData_nth:
  "i < length data \<Longrightarrow>
     snd (validateData P ms data) ! i =
       \<lparr>rowIndex = i, rv_errors = validateRow P ms i (data ! i), excluded = False\<rparr>"
  by (simp add: validateData_def nth_enumerate_eq)

lemma validateData_rowIndex: "map rowIndex (snd (validateData P ms data)) = [0..<length data]"
  by (rule nth_equalityI) (simp_all add: validateData_snd_length validateData_nth)

lemma validateData_excluded:
  "map excluded (snd (validateData P ms data)) = replicate (length data) False"
  by (rule nth_equalityI) (simp_all add: validateData_snd_length validateData_nth)

lemma validateData_rv_errors:
  "map rv_errors (snd (validateData P ms data)) =
     map (\<lambda>i. validateRow P ms i (data ! i)) [0..<length data]"
  by (rule nth_equalityI) (simp_all add: validateData_snd_length validateData_nth)

lemma fst_validateData:
  "fst (validateData P ms data) = concat (map rv_errors (snd (validateData P ms data)))"
  by (simp add: validateData_def comp_def case_prod_unfold)

lemma handleSaveMapping_accept:
  "db \<in> set (availableColumns P) \<Longrightarrow>
     handleSaveMapping P index csv db st =
       st\<lparr>columnMappings := editedMappings index csv db (columnMappings st),
          errors := fst (validateData P (columnMappings st) (csvData st)),
          rowValidations := snd (validateData P (columnMappings st) (csvData st)),
          originalRowValidations := snd (validateData P (columnMappings st) (csvData st)),
          errorSections :=
            updateErrorSections (fst (validateData P (columnMappings st) (csvData st)))\<rparr>"
  by (simp add: handleSaveMapping_def Let_def case_prod_unfold)

lemma handleSaveMapping_reject:
  "db \<notin> set (availableColumns P) \<Longrightarrow>
     handleSaveMapping P index csv db st = st\<lparr>errors := [mappingError ''Invalid column mapping'']\<rparr>"
  by (simp add: handleSaveMapping_def)

lemma loadRows_eq:
  "loadRows P ms first data st =
     st\<lparr>csvColumns := Object_keys first,
        columnMappings := findBestColumnMatches P (Object_keys first) (availableColumns P),
        csvData := data,
        errors := fst (validateData P ms data),
        rowValidations := snd (validateData P ms data),
        originalRowValidations := snd (validateData P ms data),
        errorSections := updateErrorSections (fst (validateData P ms data)),
        showMappings := True\<rparr>"
  by (simp add: loadRows_def Let_def case_prod_unfold)

text \<open>
  C10. \<open>validateData\<close> returns one row validation for each row, in the order of the rows:
  the validation at position \<open>i\<close> has \<open>rowIndex = i\<close>, the issues of row \<open>i\<close>, and
  \<open>excluded = false\<close>. After the two operations that validate again (an accepted mapping
  edit and a successful load) the row validations of the new state stand position by
  position beside its parsed rows.
\<close>

theorem validateData_one_validation_per_row:
  "length (snd (validateData P ms data)) = length data
   \<and> map rowIndex (snd (validateData P ms data)) = [0..<length data]
   \<and> map excluded (snd (validateData P ms data)) = replicate (length data) False
   \<and> map rv_errors (snd (validateData P ms data)) =
       map (\<lambda>i. validateRow P ms i (data ! i)) [0..<length data]
   \<and> (db \<in> set (availableColumns P) \<longrightarrow>
        map rowIndex (rowValidations (handleSaveMapping P index csv db st)) =
          [0..<length (csvData (handleSaveMapping P index csv db st))])
   \<and> map rowIndex (rowValidations (loadRows P ms first data st)) =
        [0..<length (csvData (loadRows P ms first data st))]"
  by (simp add: validateData_snd_length validateData_rowIndex validateData_excluded
      validateData_rv_errors handleSaveMapping_accept loadRows_eq)

theorem validateData_one_validation_per_row_witness:
  "''record_date'' \<in> set (availableColumns exampleProps)
   \<and> snd (validateData exampleProps (columnMappings (threeRows False)) (csvData (threeRows False))) =
       [noError 0, \<lparr>rowIndex = 1, rv_errors = [someIssue], excluded = False\<rparr>, noError 2]
   \<and> map rowIndex (rowValidations (handleSaveMapping exampleProps 1 ''Date'' ''record_date''
        (threeRows False))) = [0, 1, 2]"
proof -
  have a: "''record_date'' \<in> set (availableColumns exampleProps)"
    by code_simp
  have b: "snd (validateData exampleProps (columnMappings (threeRows False))
             (csvData (threeRows False))) =
       [noError 0, \<lparr>rowIndex = 1, rv_errors = [someIssue], excluded = False\<rparr>, noError 2]"
    by code_simp
  have c: "length (csvData (handleSaveMapping exampleProps 1 ''Date'' ''record_date''
        (threeRows False))) = 3"
    by (simp add: handleSaveMapping_accept [OF a]) (simp add: threeRows_def)
  have d: "[0..<3] = [0, 1, 2::nat]"
    by (simp add: upt_rec)
  from a b c d
    validateData_one_validation_per_row [of exampleProps "columnMappings (threeRows False)"
      "csvData (threeRows False)" "''record_date''" 1 "''Date''" "threeRows False"]
  show ?thesis by simp
qed

subsection \<open>The date check\<close>

lemma dateRegex_test_shape:
  "dateRegex_test s \<longleftrightarrow>
     (\<exists>y m d. s = y @ ''-'' @ m @ ''-'' @ d \<and> length y = 4 \<and> length m = 2 \<and> length d = 2 \<and>
        list_all isDigit (y @ m @ d))"
proof
  assume "dateRegex_test s"
  then obtain y1 y2 y3 y4 m1 m2 d1 d2 where
    s: "s = [y1, y2, y3, y4, CHR ''-'', m1, m2, CHR ''-'', d1, d2]"
    and dg: "isDigit y1" "isDigit y2" "isDigit y3" "isDigit y4" "isDigit m1" "isDigit m2"
      "isDigit d1" "isDigit d2"
    by (auto simp: dateRegex_test_def split: list.splits)
  have "s = [y1, y2, y3, y4] @ ''-'' @ [m1, m2] @ ''-'' @ [d1, d2]"
    using s by simp
  with dg show "\<exists>y m d. s = y @ ''-'' @ m @ ''-'' @ d \<and> length y = 4 \<and> length m = 2 \<and>
      length d = 2 \<and> list_all isDigit (y @ m @ d)"
    by (intro exI [of _ "[y1, y2, y3, y4]"] exI [of _ "[m1, m2]"] exI [of _ "[d1, d2]"]) simp
next
  assume "\<exists>y m d. s = y @ ''-'' @ m @ ''-'' @ d \<and> length y = 4 \<and> length m = 2 \<and>
      length d = 2 \<and> list_all isDigit (y @ m @ d)"
  then obtain y m d where s: "s = y @ ''-'' @ m @ ''-'' @ d"
    and l: "length y = 4" "length m = 2" "length d = 2"
    and dg: "list_all isDigit (y @ m @ d)"
    by blast
  from l(1) obtain y1 y2 y3 y4 where y: "y = [y1, y2, y3, y4]"
    by (auto simp: length_Suc_conv numeral_eq_Suc)
  from l(2) obtain m1 m2 where m: "m = [m1, m2]"
    by (auto simp: length_Suc_conv numeral_eq_Suc)
  from l(3) obtain d1 d2 where d: "d = [d1, d2]"
    by (auto simp: length_Suc_conv numeral_eq_Suc)
  from dg show "dateRegex_test s"
    by (simp add: s y m d dateRegex_test_def)
qed

lemma dateRegex_test_2024_13_40: "dateRegex_test ''2024-13-40''"
  by code_simp

lemma record_date_field:
  "str_includes ''record_date'' ''date'' \<and> \<not> str_includes (toLowerCase ''record_date'') ''email''"
  by code_simp

lemma trim_2024_13_40: "trim ''2024-13-40'' = ''2024-13-40''"
  by code_simp

text \<open>
  C6, as the code has it. The value \<open>"2024-13-40"\<close> of a matched \<open>record_date\<close> mapping
  is accepted by the validator.
\<close>

theorem validateData_accepts_2024_13_40:
  "validateData exampleProps [idMapping, dateMapping]
     [[(''Student ID'', JStr ''S1''), (''Date'', JStr ''2024-13-40'')]]
   = ([], [\<lparr>rowIndex = 0, rv_errors = [], excluded = False\<rparr>])
   \<and> dateCheck ''record_date'' 0 (JStr ''2024-13-40'') = []"
  by code_simp

text \<open>
  C6, amended. The date check looks at the form of the value only: for a field whose
  name contains \<open>date\<close> and a value that is present, it pushes one format issue exactly when
  the text of the value is not four digits, a hyphen, two digits, a hyphen and two digits.
  No calendar check is made, so \<open>"2024-13-40"\<close> on \<open>record_date\<close> passes the date check, and
  a matched mapping that reads it gives the row no issue at all unless the type table
  declares \<open>record_date\<close> numeric, integer or uuid.
\<close>

theorem dateCheck_is_format_only:
  "(dateRegex_test s \<longleftrightarrow>
      (\<exists>y m d. s = y @ ''-'' @ m @ ''-'' @ d \<and> length y = 4 \<and> length m = 2 \<and> length d = 2 \<and>
         list_all isDigit (y @ m @ d)))
   \<and> (str_includes field ''date'' \<and> truthy v \<longrightarrow>
        dateCheck field index v =
          (if dateRegex_test (ToString v) then [] else [dateError field index v]))
   \<and> dateCheck ''record_date'' index (JStr ''2024-13-40'') = []
   \<and> (matched m \<and> dbColumn m = ''record_date'' \<and> getProp r (csvColumn m) = JStr ''2024-13-40'' \<and>
      COLUMN_TYPES P ''record_date'' \<notin> {Some ''numeric'', Some ''integer'', Some ''uuid''} \<longrightarrow>
        validateMapping P index r m = [])"
proof (intro conjI impI)
  show "dateCheck ''record_date'' index (JStr ''2024-13-40'') = []"
    by (simp add: dateCheck_def dateRegex_test_2024_13_40)
next
  assume "matched m \<and> dbColumn m = ''record_date'' \<and> getProp r (csvColumn m) = JStr ''2024-13-40'' \<and>
      COLUMN_TYPES P ''record_date'' \<notin> {Some ''numeric'', Some ''integer'', Some ''uuid''}"
  then show "validateMapping P index r m = []"
    using record_date_field
    by (simp add: validateMapping_def requiredCheck_def emailCheck_def dateCheck_def
        numberCheck_def uuidCheck_def dateRegex_test_2024_13_40 trim_2024_13_40)
next
  show "dateRegex_test s \<longleftrightarrow>
      (\<exists>y m d. s = y @ ''-'' @ m @ ''-'' @ d \<and> length y = 4 \<and> length m = 2 \<and> length d = 2 \<and>
         list_all isDigit (y @ m @ d))"
    by (rule dateRegex_test_shape)
next
  assume "str_includes field ''date'' \<and> truthy v"
  then show "dateCheck field index v =
          (if dateRegex_test (ToString v) then [] else [dateError field index v])"
    by (simp add: dateCheck_def)
qed

theorem dateCheck_is_format_only_witness:
  "str_includes ''record_date'' ''date'' \<and> truthy (JStr ''05/01/2024'')
   \<and> dateCheck ''record_date'' 0 (JStr ''05/01/2024'') =
       [dateError ''record_date'' 0 (JStr ''05/01/2024'')]
   \<and> dateCheck ''record_date'' 0 (JStr ''2024-01-05'') = []
   \<and> validateMapping exampleProps 0 [(''Student ID'', JStr ''S1''), (''Date'', JStr ''2024-13-40'')]
        dateMapping = []"
proof -
  have a: "str_includes ''record_date'' ''date''"
    using record_date_field by simp
  have b: "\<not> dateRegex_test ''05/01/2024''" "dateRegex_test ''2024-01-05''"
    by code_simp+
  have c: "matched dateMapping \<and> dbColumn dateMapping = ''record_date'' \<and>
      getProp [(''Student ID'', JStr ''S1''), (''Date'', JStr ''2024-13-40'')] (csvColumn dateMapping) =
        JStr ''2024-13-40'' \<and>
      COLUMN_TYPES exampleProps ''record_date'' \<notin> {Some ''numeric'', Some ''integer'', Some ''uuid''}"
    by (simp add: dateMapping_def getProp_def exampleProps_def)
  from a b c
    dateCheck_is_format_only [of "''2024-01-05''" "''record_date''" "JStr ''05/01/2024''" 0 dateMapping
      "[(''Student ID'', JStr ''S1''), (''Date'', JStr ''2024-13-40'')]" exampleProps]
    dateCheck_is_format_only [of "''2024-01-05''" "''record_date''" "JStr ''2024-01-05''" 0 dateMapping
      "[(''Student ID'', JStr ''S1''), (''Date'', JStr ''2024-13-40'')]" exampleProps]
  show ?thesis by simp
qed

subsection \<open>Upload of an empty file\<close>

lemma updateErrorSections_one_format:
  "updateErrorSections [formatError msg] =
     [\<lparr>stype = Format, title = ''Format Validation Errors'', sec_errors = [formatError msg],
       isOpen = True\<rparr>]"
  by (simp add: updateErrorSections_def formatError_def typeTitles_def)

text \<open>
  C7, as the code has it. Uploading an empty \<open>.csv\<close> file into a session that holds a
  parsed file leaves the mappings, columns, rows and row validations of that file in the
  state: the state is not the initial one with the new issue.
\<close>

theorem empty_csv_upload_keeps_loaded_session:
  "columnMappings (handleFileUpload exampleProps (Some emptyCsv) loadedState) =
     [idMapping, dateMapping]
   \<and> csvColumns (handleFileUpload exampleProps (Some emptyCsv) loadedState) =
       [''Student ID'', ''Date'']
   \<and> csvData (handleFileUpload exampleProps (Some emptyCsv) loadedState) =
       [[(''Student ID'', JStr ''S1''), (''Date'', JStr ''2024-01-05'')]]
   \<and> rowValidations (handleFileUpload exampleProps (Some emptyCsv) loadedState) = [noError 0]
   \<and> handleFileUpload exampleProps (Some emptyCsv) loadedState \<noteq>
       reportErrors [formatError ''CSV file is empty''] initialState"
  by code_simp

text \<open>
  C7, amended. An upload of a \<open>.csv\<close> file that parses to zero data rows empties the
  error list and the error sections, hides the mapping and preview panels and switches
  the bulk toggle off, and then reports exactly one issue, of type format with the message
  \<open>CSV file is empty\<close>, in the error list and in one error section. It computes no columns,
  mappings, rows or row validations: these five parts of the state stay as they were, which
  on a fresh session is empty.
\<close>

theorem handleFileUpload_empty_csv:
  "endsWith (file_name f) ''.csv'' \<Longrightarrow> papa f = PapaComplete [] \<Longrightarrow>
     handleFileUpload P (Some f) st =
       st\<lparr>errors := [formatError ''CSV file is empty''],
          errorSections :=
            [\<lparr>stype = Format, title = ''Format Validation Errors'',
              sec_errors = [formatError ''CSV file is empty''], isOpen = True\<rparr>],
          showMappings := False, showPreview := False, excludeAllInvalid := False\<rparr>
   \<and> columnMappings (handleFileUpload P (Some f) st) = columnMappings st
   \<and> csvColumns (handleFileUpload P (Some f) st) = csvColumns st
   \<and> csvData (handleFileUpload P (Some f) st) = csvData st
   \<and> rowValidations (handleFileUpload P (Some f) st) = rowValidations st
   \<and> originalRowValidations (handleFileUpload P (Some f) st) = originalRowValidations st"
  by (simp add: handleFileUpload_def reportErrors_def updateErrorSections_one_format)

theorem handleFileUpload_empty_csv_witness:
  "endsWith (file_name emptyCsv) ''.csv'' \<and> papa emptyCsv = PapaComplete []
   \<and> handleFileUpload exampleProps (Some emptyCsv) initialState =
       initialState\<lparr>errors := [formatError ''CSV file is empty''],
          errorSections :=
            [\<lparr>stype = Format, title = ''Format Validation Errors'',
              sec_errors = [formatError ''CSV file is empty''], isOpen = True\<rparr>]\<rparr>
   \<and> columnMappings (handleFileUpload exampleProps (Some emptyCsv) initialState) = []
   \<and> csvData (handleFileUpload exampleProps (Some emptyCsv) initialState) = []
   \<and> rowValidations (handleFileUpload exampleProps (Some emptyCsv) initialState) = []"
proof -
  have a: "endsWith (file_name emptyCsv) ''.csv''"
    by (simp add: emptyCsv_def endsWith_def)
  have b: "papa emptyCsv = PapaComplete []"
    by (simp add: emptyCsv_def)
  from a b handleFileUpload_empty_csv [OF a b, of exampleProps initialState]
  show ?thesis by (simp add: initialState_def)
qed

subsection \<open>handleSaveMapping\<close>

text \<open>
  C5, on the code. In a session whose \<open>Date\<close> column is unmapped and holds
  \<open>"05/01/2024"\<close>, saving the mapping \<open>Date\<close> to \<open>record_date\<close> is accepted and replaces
  the mapping, but the row validations and errors it stores are those of the mapping list
  before the edit: they show no issue, while validation under the new mapping list
  reports the date of the row.
\<close>

theorem handleSaveMapping_validates_under_old_mappings:
  "''record_date'' \<in> set (availableColumns exampleProps)
   \<and> columnMappings (handleSaveMapping exampleProps 1 ''Date'' ''record_date'' unmappedDateState) =
       [idMapping, dateMapping\<lparr>manual := True\<rparr>]
   \<and> rowValidations (handleSaveMapping exampleProps 1 ''Date'' ''record_date'' unmappedDateState) =
       [\<lparr>rowIndex = 0, rv_errors = [], excluded = False\<rparr>]
   \<and> errors (handleSaveMapping exampleProps 1 ''Date'' ''record_date'' unmappedDateState) = []
   \<and> validateData exampleProps [idMapping, dateMapping\<lparr>manual := True\<rparr>]
        (csvData unmappedDateState) =
       ([dateError ''record_date'' 0 (JStr ''05/01/2024'')],
        [\<lparr>rowIndex = 0, rv_errors = [dateError ''record_date'' 0 (JStr ''05/01/2024'')],
          excluded = False\<rparr>])"
  by code_simp

section \<open>Properties of the attendance step\<close>

subsection \<open>The loop and its two lists\<close>

lemma importLoop_foldl:
  "foldl (\<lambda>(processed, importErrors) i.
              case step i (raw ! i) of
                Skipped \<Rightarrow> (processed, importErrors)
              | Failed e \<Rightarrow> (processed, importErrors @ [e])
              | Accepted r \<Rightarrow> (processed @ [r], importErrors))
           (ps, es) is =
     (ps @ concat (map (\<lambda>i. case step i (raw ! i) of Accepted r \<Rightarrow> [r] | _ \<Rightarrow> []) is),
      es @ concat (map (\<lambda>i. case step i (raw ! i) of Failed e \<Rightarrow> [e] | _ \<Rightarrow> []) is))"
  by (induction "is" arbitrary: ps es) (auto split: row_outcome.splits)

lemma importLoop_errors:
  "snd (importLoop step start raw) =
     concat (map (\<lambda>i. case step i (raw ! i) of Failed e \<Rightarrow> [e] | _ \<Rightarrow> []) [start..<length raw])"
  by (simp add: importLoop_def importLoop_foldl)

lemma importLoop_processed:
  "fst (importLoop step start raw) =
     concat (map (\<lambda>i. case step i (raw ! i) of Accepted r \<Rightarrow> [r] | _ \<Rightarrow> []) [start..<length raw])"
  by (simp add: importLoop_def importLoop_foldl)

lemma importLoop_error_mem:
  assumes "start \<le> i" and "i < length raw" and "step i (raw ! i) = Failed e"
  shows "e \<in> set (snd (importLoop step start raw))"
proof -
  from assms(1,2) have "i \<in> set [start..<length raw]"
    by simp
  with assms(3) show ?thesis
    unfolding importLoop_errors set_concat set_map by force
qed

lemma commitOrReject_reject:
  "snd res \<noteq> [] \<Longrightarrow>
     commitOrReject res st = st\<lparr>error := Some (join [CHR 0x0A] (take 10 (snd res)))\<rparr>"
  by (cases res) (simp add: commitOrReject_def)

lemma commitOrReject_commit:
  "snd res = [] \<Longrightarrow>
     commitOrReject res st =
       st\<lparr>cachedData := cachedData st @ fst res,
          onUpdate_calls := onUpdate_calls st @ [cachedData st @ fst res], error := None\<rparr>"
  by (cases res) (simp add: commitOrReject_def Let_def)

lemma find_None_list_all: "find p xs = None \<longleftrightarrow> list_all (\<lambda>x. \<not> p x) xs"
  by (auto simp: find_None_iff list_all_iff)

lemma processStandardFormat_rows:
  assumes "findHeaderRow raw = Some h" and "raw ! h = Arr hs" and "hs \<noteq> []"
    and "list_all isString hs"
  shows "processStandardFormat E raw st =
     Inr (commitOrReject (standardRows E raw h (map ToString hs)) st)"
proof -
  from assms(4) have "find (\<lambda>v. \<not> isString v) hs = None"
    by (simp add: find_None_list_all)
  with assms(1-3) show ?thesis
    by (simp add: processStandardFormat_def)
qed

subsection \<open>The outcome of one row\<close>

lemma parseRecordDate_None:
  "parseRecordDate E v = None \<longleftrightarrow>
     nativeDate E v = None \<and>
     length (splitOn (\<lambda>ch. ch = CHR ''/'' \<or> ch = CHR ''-'') (ToString v)) \<noteq> 3"
  by (auto simp: parseRecordDate_def split: option.splits list.splits)

lemma buildRecord_Failed_iff:
  "(\<exists>e. buildRecord E year i c = Failed e) \<longleftrightarrow>
     (\<not> truthy (studentId c) \<or>
      find (\<lambda>s. s_school_student_id s = Some (ToString (studentId c))) (students E) = None \<or>
      \<not> truthy (resultDate c) \<or> \<not> truthy (totalDaysPresent c) \<or>
      \<not> truthy (totalDaysPossible c) \<or> \<not> truthy (fyAbsencesTotal c) \<or>
      \<not> truthy (fyAbsencesExcused c) \<or> \<not> truthy (fyAbsencesUnexcused c) \<or>
      \<not> truthy (fyTardiesTotal c) \<or> parseRecordDate E (resultDate c) = None)"
  by (auto simp: buildRecord_def Let_def split: option.splits)

lemma att_errs_link:
  "snd (linkItRows E raw) =
       concat (map (\<lambda>i. case linkItStep E (attendanceYearFromFile E raw) i (raw ! i) of
                          Failed e \<Rightarrow> [e] | _ \<Rightarrow> [])
                   [8..<length raw])"
  by (simp add: linkItRows_def importLoop_errors)

lemma att_errs_std:
  "snd (standardRows E raw h hdrs) =
       concat (map (\<lambda>i. case standardStep E (attendanceYearFromFile E raw) hdrs i (raw ! i) of
                          Failed e \<Rightarrow> [e] | _ \<Rightarrow> [])
                   [h + 1..<length raw])"
  by (simp add: standardRows_def importLoop_errors)

lemma att_step_link:
  "linkItStep E year i r =
       (if rowIgnored r then Skipped else buildRecord E year i (linkItCells r))"
  by (simp add: linkItStep_def)

lemma att_step_std:
  "standardStep E year hdrs i r =
       (if rowIgnored r then Skipped
        else buildRecord E year i
               (standardCells (getValue (buildColumnMap hdrs)
                  (att_findBestColumnMatches hdrs attendanceColumns) r)))"
  by (simp add: standardStep_def)

lemma att_cells_link:
  "linkItCells r =
       \<lparr>studentId = cell r 2, resultDate = cell r 19, totalDaysPresent = cell r 22,
        totalDaysPossible = cell r 23, fyAbsencesTotal = cell r 24, fyAbsencesExcused = cell r 25,
        fyAbsencesUnexcused = cell r 26, fyTardiesTotal = cell r 27,
        dailyAttendanceRate = cell r 21, mp1AttendanceRate = cell r 32,
        mp2AttendanceRate = cell r 43, mp3AttendanceRate = cell r 54,
        mp4AttendanceRate = cell r 65\<rparr>"
  by (simp add: linkItCells_def)

lemma row_no_id:
  "(\<not> truthy (studentId c) \<longrightarrow>
        buildRecord E year i c = Failed (rowLabel i @ ''Missing student ID''))"
  by (simp add: buildRecord_def)

lemma row_unknown:
  "(truthy (studentId c) \<and> find (\<lambda>s. s_school_student_id s = Some (ToString (studentId c))) (students E) = None \<longrightarrow>
        buildRecord E year i c =
          Failed (rowLabel i @ ''Student with ID '' @ ToString (studentId c) @ '' not found''))"
  by (simp add: buildRecord_def)

lemma row_missing:
  "(truthy (studentId c) \<and> find (\<lambda>s. s_school_student_id s = Some (ToString (studentId c))) (students E) \<noteq> None \<and>
      (\<not> truthy (resultDate c) \<or> \<not> truthy (totalDaysPresent c) \<or> \<not> truthy (totalDaysPossible c) \<or> \<not> truthy (fyAbsencesTotal c) \<or> \<not> truthy (fyAbsencesExcused c) \<or> \<not> truthy (fyAbsencesUnexcused c) \<or> \<not> truthy (fyTardiesTotal c)) \<longrightarrow>
        buildRecord E year i c = Failed (rowLabel i @ ''Missing required attendance data''))"
  by (auto simp: buildRecord_def split: option.splits)

lemma row_bad_date:
  "(truthy (studentId c) \<and> find (\<lambda>s. s_school_student_id s = Some (ToString (studentId c))) (students E) \<noteq> None \<and>
      truthy (resultDate c) \<and> truthy (totalDaysPresent c) \<and> truthy (totalDaysPossible c) \<and> truthy (fyAbsencesTotal c) \<and> truthy (fyAbsencesExcused c) \<and> truthy (fyAbsencesUnexcused c) \<and> truthy (fyTardiesTotal c) \<and>
      nativeDate E (resultDate c) = None \<and>
      length (splitOn (\<lambda>ch. ch = CHR ''/'' \<or> ch = CHR ''-'') (ToString (resultDate c))) \<noteq> 3 \<longrightarrow>
        buildRecord E year i c =
          Failed (rowLabel i @ ''Invalid date format '' @ ToString (resultDate c)))"
  using parseRecordDate_None [of E "resultDate c"]
  by (auto simp: buildRecord_def split: option.splits)

lemma row_fail_iff:
  "((\<exists>e. buildRecord E year i c = Failed e) \<longleftrightarrow>
       (\<not> truthy (studentId c)
        \<or> find (\<lambda>s. s_school_student_id s = Some (ToString (studentId c))) (students E) = None
        \<or> \<not> truthy (resultDate c)
        \<or> \<not> truthy (totalDaysPresent c)
        \<or> \<not> truthy (totalDaysPossible c)
        \<or> \<not> truthy (fyAbsencesTotal c)
        \<or> \<not> truthy (fyAbsencesExcused c)
        \<or> \<not> truthy (fyAbsencesUnexcused c)
        \<or> \<not> truthy (fyTardiesTotal c)
        \<or> (nativeDate E (resultDate c) = None \<and> length (splitOn (\<lambda>ch. ch = CHR ''/'' \<or> ch = CHR ''-'') (ToString (resultDate c))) \<noteq> 3)))"
  unfolding buildRecord_Failed_iff parseRecordDate_None by blast

lemma row_failed_msgs:
  "(buildRecord E year i c = Failed e \<longrightarrow>
        e \<in> set [rowLabel i @ ''Missing student ID'',
                      rowLabel i @ ''Student with ID '' @ ToString (studentId c) @ '' not found'',
                      rowLabel i @ ''Missing required attendance data'',
                      rowLabel i @ ''Invalid date format '' @ ToString (resultDate c)])"
  by (auto simp: buildRecord_def Let_def split: if_splits option.splits)

lemma row_label:
  "rowLabel i = ''Row '' @ decimalDigits (i + 1) @ '': ''"
  by (simp add: rowLabel_def)

subsection \<open>Rejection of the batch\<close>

lemma att_rej_link:
  "(snd (linkItRows E raw) \<noteq> [] \<longrightarrow>
        processLinkItFormat E raw st = st\<lparr>error := Some (join [CHR 0x0A] (take 10 (snd (linkItRows E raw))))\<rparr>)"
  by (simp add: processLinkItFormat_def commitOrReject_reject)

lemma att_rej_std:
  "(findHeaderRow raw = Some h \<and> raw ! h = Arr hs \<and> hs \<noteq> [] \<and> list_all isString hs \<and>
      snd (standardRows E raw h (map ToString hs)) \<noteq> [] \<longrightarrow>
        processStandardFormat E raw st = Inr (st\<lparr>error := Some (join [CHR 0x0A] (take 10 (snd (standardRows E raw h (map ToString hs)))))\<rparr>))"
  using processStandardFormat_rows [of raw h hs E st]
  by (auto simp: commitOrReject_reject)

lemma att_rej_link_defect:
  "(8 \<le> i \<and> i < length raw \<and> \<not> rowIgnored (raw ! i) \<and>
      (\<not> truthy (studentId (linkItCells (raw ! i)))
        \<or> find (\<lambda>s. s_school_student_id s = Some (ToString (studentId (linkItCells (raw ! i))))) (students E) = None
        \<or> \<not> truthy (resultDate (linkItCells (raw ! i)))
        \<or> \<not> truthy (totalDaysPresent (linkItCells (raw ! i)))
        \<or> \<not> truthy (totalDaysPossible (linkItCells (raw ! i)))
        \<or> \<not> truthy (fyAbsencesTotal (linkItCells (raw ! i)))
        \<or> \<not> truthy (fyAbsencesExcused (linkItCells (raw ! i)))
        \<or> \<not> truthy (fyAbsencesUnexcused (linkItCells (raw ! i)))
        \<or> \<not> truthy (fyTardiesTotal (linkItCells (raw ! i)))
        \<or> (nativeDate E (resultDate (linkItCells (raw ! i))) = None \<and> length (splitOn (\<lambda>ch. ch = CHR ''/'' \<or> ch = CHR ''-'') (ToString (resultDate (linkItCells (raw ! i))))) \<noteq> 3)) \<longrightarrow>
        snd (linkItRows E raw) \<noteq> [] \<and>
        processLinkItFormat E raw st = st\<lparr>error := Some (join [CHR 0x0A] (take 10 (snd (linkItRows E raw))))\<rparr> \<and>
        cachedData (processLinkItFormat E raw st) = cachedData st \<and>
        onUpdate_calls (processLinkItFormat E raw st) = onUpdate_calls st)"
proof (intro impI)
  assume a: "8 \<le> i \<and> i < length raw \<and> \<not> rowIgnored (raw ! i) \<and>
    (\<not> truthy (studentId (linkItCells (raw ! i)))
      \<or> find (\<lambda>s. s_school_student_id s = Some (ToString (studentId (linkItCells (raw ! i))))) (students E) = None
      \<or> \<not> truthy (resultDate (linkItCells (raw ! i)))
      \<or> \<not> truthy (totalDaysPresent (linkItCells (raw ! i)))
      \<or> \<not> truthy (totalDaysPossible (linkItCells (raw ! i)))
      \<or> \<not> truthy (fyAbsencesTotal (linkItCells (raw ! i)))
      \<or> \<not> truthy (fyAbsencesExcused (linkItCells (raw ! i)))
      \<or> \<not> truthy (fyAbsencesUnexcused (linkItCells (raw ! i)))
      \<or> \<not> truthy (fyTardiesTotal (linkItCells (raw ! i)))
      \<or> (nativeDate E (resultDate (linkItCells (raw ! i))) = None \<and> length (splitOn (\<lambda>ch. ch = CHR ''/'' \<or> ch = CHR ''-'') (ToString (resultDate (linkItCells (raw ! i))))) \<noteq> 3))"
  then have "\<exists>e. buildRecord E (attendanceYearFromFile E raw) i (linkItCells (raw ! i)) = Failed e"
    using row_fail_iff [of E "attendanceYearFromFile E raw" i "linkItCells (raw ! i)"] by blast
  then obtain e where "buildRecord E (attendanceYearFromFile E raw) i (linkItCells (raw ! i)) = Failed e"
    by blast
  with a have "linkItStep E (attendanceYearFromFile E raw) i (raw ! i) = Failed e"
    by (simp add: linkItStep_def)
  with a have "e \<in> set (snd (linkItRows E raw))"
    unfolding linkItRows_def by (intro importLoop_error_mem) simp_all
  then have ne: "snd (linkItRows E raw) \<noteq> []"
    by auto
  then have r: "processLinkItFormat E raw st = st\<lparr>error := Some (join [CHR 0x0A] (take 10 (snd (linkItRows E raw))))\<rparr>"
    using att_rej_link [of E raw st] by blast
  from ne r show "snd (linkItRows E raw) \<noteq> [] \<and>
      processLinkItFormat E raw st = st\<lparr>error := Some (join [CHR 0x0A] (take 10 (snd (linkItRows E raw))))\<rparr> \<and>
      cachedData (processLinkItFormat E raw st) = cachedData st \<and>
      onUpdate_calls (processLinkItFormat E raw st) = onUpdate_calls st"
    by simp
qed

lemma att_rej_std_defect:
  "(findHeaderRow raw = Some h \<and> raw ! h = Arr hs \<and> hs \<noteq> [] \<and> list_all isString hs \<and>
      h < i \<and> i < length raw \<and> \<not> rowIgnored (raw ! i) \<and>
      (\<not> truthy (studentId (standardCells (getValue (buildColumnMap (map ToString hs)) (att_findBestColumnMatches (map ToString hs) attendanceColumns) (raw ! i))))
        \<or> find (\<lambda>s. s_school_student_id s = Some (ToString (studentId (standardCells (getValue (buildColumnMap (map ToString hs)) (att_findBestColumnMatches (map ToString hs) attendanceColumns) (raw ! i)))))) (students E) = None
        \<or> \<not> truthy (resultDate (standardCells (getValue (buildColumnMap (map ToString hs)) (att_findBestColumnMatches (map ToString hs) attendanceColumns) (raw ! i))))
        \<or> \<not> truthy (totalDaysPresent (standardCells (getValue (buildColumnMap (map ToString hs)) (att_findBestColumnMatches (map ToString hs) attendanceColumns) (raw ! i))))
        \<or> \<not> truthy (totalDaysPossible (standardCells (getValue (buildColumnMap (map ToString hs)) (att_findBestColumnMatches (map ToString hs) attendanceColumns) (raw ! i))))
        \<or> \<not> truthy (fyAbsencesTotal (standardCells (getValue (buildColumnMap (map ToString hs)) (att_findBestColumnMatches (map ToString hs) attendanceColumns) (raw ! i))))
        \<or> \<not> truthy (fyAbsencesExcused (standardCells (getValue (buildColumnMap (map ToString hs)) (att_findBestColumnMatches (map ToString hs) attendanceColumns) (raw ! i))))
        \<or> \<not> truthy (fyAbsencesUnexcused (standardCells (getValue (buildColumnMap (map ToString hs)) (att_findBestColumnMatches (map ToString hs) attendanceColumns) (raw ! i))))
        \<or> \<not> truthy (fyTardiesTotal (standardCells (getValue (buildColumnMap (map ToString hs)) (att_findBestColumnMatches (map ToString hs) attendanceColumns) (raw ! i))))
        \<or> (nativeDate E (resultDate (standardCells (getValue (buildColumnMap (map ToString hs)) (att_findBestColumnMatches (map ToString hs) attendanceColumns) (raw ! i)))) = None \<and> length (splitOn (\<lambda>ch. ch = CHR ''/'' \<or> ch = CHR ''-'') (ToString (resultDate (standardCells (getValue (buildColumnMap (map ToString hs)) (att_findBestColumnMatches (map ToString hs) attendanceColumns) (raw ! i)))))) \<noteq> 3)) \<longrightarrow>
        snd (standardRows E raw h (map ToString hs)) \<noteq> [] \<and>
        processStandardFormat E raw st = Inr (st\<lparr>error := Some (join [CHR 0x0A] (take 10 (snd (standardRows E raw h (map ToString hs)))))\<rparr>))"
proof (intro impI)
  assume a: "findHeaderRow raw = Some h \<and> raw ! h = Arr hs \<and> hs \<noteq> [] \<and> list_all isString hs \<and>
    h < i \<and> i < length raw \<and> \<not> rowIgnored (raw ! i) \<and>
    (\<not> truthy (studentId (standardCells (getValue (buildColumnMap (map ToString hs)) (att_findBestColumnMatches (map ToString hs) attendanceColumns) (raw ! i))))
      \<or> find (\<lambda>s. s_school_student_id s = Some (ToString (studentId (standardCells (getValue (buildColumnMap (map ToString hs)) (att_findBestColumnMatches (map ToString hs) attendanceColumns) (raw ! i)))))) (students E) = None
      \<or> \<not> truthy (resultDate (standardCells (getValue (buildColumnMap (map ToString hs)) (att_findBestColumnMatches (map ToString hs) attendanceColumns) (raw ! i))))
      \<or> \<not> truthy (totalDaysPresent (standardCells (getValue (buildColumnMap (map ToString hs)) (att_findBestColumnMatches (map ToString hs) attendanceColumns) (raw ! i))))
      \<or> \<not> truthy (totalDaysPossible (standardCells (getValue (buildColumnMap (map ToString hs)) (att_findBestColumnMatches (map ToString hs) attendanceColumns) (raw ! i))))
      \<or> \<not> truthy (fyAbsencesTotal (standardCells (getValue (buildColumnMap (map ToString hs)) (att_findBestColumnMatches (map ToString hs) attendanceColumns) (raw ! i))))
      \<or> \<not> truthy (fyAbsencesExcused (standardCells (getValue (buildColumnMap (map ToString hs)) (att_findBestColumnMatches (map ToString hs) attendanceColumns) (raw ! i))))
      \<or> \<not> truthy (fyAbsencesUnexcused (standardCells (getValue (buildColumnMap (map ToString hs)) (att_findBestColumnMatches (map ToString hs) attendanceColumns) (raw ! i))))
      \<or> \<not> truthy (fyTardiesTotal (standardCells (getValue (buildColumnMap (map ToString hs)) (att_findBestColumnMatches (map ToString hs) attendanceColumns) (raw ! i))))
      \<or> (nativeDate E (resultDate (standardCells (getValue (buildColumnMap (map ToString hs)) (att_findBestColumnMatches (map ToString hs) attendanceColumns) (raw ! i)))) = None \<and> length (splitOn (\<lambda>ch. ch = CHR ''/'' \<or> ch = CHR ''-'') (ToString (resultDate (standardCells (getValue (buildColumnMap (map ToString hs)) (att_findBestColumnMatches (map ToString hs) attendanceColumns) (raw ! i)))))) \<noteq> 3))"
  then have "\<exists>e. buildRecord E (attendanceYearFromFile E raw) i (standardCells (getValue (buildColumnMap (map ToString hs)) (att_findBestColumnMatches (map ToString hs) attendanceColumns) (raw ! i))) = Failed e"
    using row_fail_iff [of E "attendanceYearFromFile E raw" i "standardCells (getValue (buildColumnMap (map ToString hs)) (att_findBestColumnMatches (map ToString hs) attendanceColumns) (raw ! i))"] by blast
  then obtain e where "buildRecord E (attendanceYearFromFile E raw) i (standardCells (getValue (buildColumnMap (map ToString hs)) (att_findBestColumnMatches (map ToString hs) attendanceColumns) (raw ! i))) = Failed e"
    by blast
  with a have "standardStep E (attendanceYearFromFile E raw) (map ToString hs) i (raw ! i) = Failed e"
    by (simp add: standardStep_def)
  with a have "e \<in> set (snd (standardRows E raw h (map ToString hs)))"
    unfolding standardRows_def by (intro importLoop_error_mem) simp_all
  then have ne: "snd (standardRows E raw h (map ToString hs)) \<noteq> []"
    by auto
  with a have "processStandardFormat E raw st = Inr (st\<lparr>error := Some (join [CHR 0x0A] (take 10 (snd (standardRows E raw h (map ToString hs)))))\<rparr>)"
    using att_rej_std [of raw h hs E st] by blast
  with ne show "snd (standardRows E raw h (map ToString hs)) \<noteq> [] \<and>
      processStandardFormat E raw st = Inr (st\<lparr>error := Some (join [CHR 0x0A] (take 10 (snd (standardRows E raw h (map ToString hs)))))\<rparr>)"
    by simp
qed

lemma att_bulk_link:
  "(isLinkItFormat raw \<and> snd (linkItRows E raw) \<noteq> [] \<longrightarrow>
        cachedData (handleBulkImport E raw st) = cachedData st \<and>
        onUpdate_calls (handleBulkImport E raw st) = onUpdate_calls st \<and>
        error (handleBulkImport E raw st) = Some (join [CHR 0x0A] (take 10 (snd (linkItRows E raw)))))"
proof (intro impI)
  assume a: "isLinkItFormat raw \<and> snd (linkItRows E raw) \<noteq> []"
  then have "handleBulkImport E raw st = st\<lparr>error := Some (join [CHR 0x0A] (take 10 (snd (linkItRows E raw))))\<rparr>"
    by (simp add: handleBulkImport_def processLinkItFormat_def commitOrReject_reject)
  then show "cachedData (handleBulkImport E raw st) = cachedData st \<and>
      onUpdate_calls (handleBulkImport E raw st) = onUpdate_calls st \<and>
      error (handleBulkImport E raw st) = Some (join [CHR 0x0A] (take 10 (snd (linkItRows E raw))))"
    by simp
qed

lemma att_bulk_std:
  "(\<not> isLinkItFormat raw \<and> findHeaderRow raw = Some h \<and> raw ! h = Arr hs \<and> hs \<noteq> [] \<and> list_all isString hs \<and>
      snd (standardRows E raw h (map ToString hs)) \<noteq> [] \<longrightarrow>
        cachedData (handleBulkImport E raw st) = cachedData st \<and>
        onUpdate_calls (handleBulkImport E raw st) = onUpdate_calls st \<and>
        error (handleBulkImport E raw st) = Some (join [CHR 0x0A] (take 10 (snd (standardRows E raw h (map ToString hs))))))"
proof (intro impI)
  assume a: "\<not> isLinkItFormat raw \<and> findHeaderRow raw = Some h \<and> raw ! h = Arr hs \<and> hs \<noteq> [] \<and> list_all isString hs \<and>
    snd (standardRows E raw h (map ToString hs)) \<noteq> []"
  then have "processStandardFormat E raw st = Inr (st\<lparr>error := Some (join [CHR 0x0A] (take 10 (snd (standardRows E raw h (map ToString hs)))))\<rparr>)"
    using att_rej_std [of raw h hs E st] by blast
  with a have "handleBulkImport E raw st = st\<lparr>error := Some (join [CHR 0x0A] (take 10 (snd (standardRows E raw h (map ToString hs)))))\<rparr>"
    by (simp add: handleBulkImport_def)
  then show "cachedData (handleBulkImport E raw st) = cachedData st \<and>
      onUpdate_calls (handleBulkImport E raw st) = onUpdate_calls st \<and>
      error (handleBulkImport E raw st) =
        Some (join [CHR 0x0A] (take 10 (snd (standardRows E raw h (map ToString hs)))))"
    by simp
qed

text \<open>
  C4. In both import paths a row that is an array with a first cell fails exactly when
  it has one of four defects: no student ID, no student of the step with that school
  student ID, a required attendance cell that is missing, or a date that neither the engine
  nor the three-part fallback can read. Its message is the one of the first defect in
  that order and starts with \<open>Row\<close> and the 1-based number of the row. The error list
  holds the messages of the failing rows in row order. A sheet with such a row is
  rejected as a whole: the error banner is set to the first ten messages, one per line,
  the cached records stay as they were and \<open>onUpdate\<close> is not called.
\<close>

theorem attendance_import_is_all_or_nothing:
  fixes c :: rowCells
  shows
  "snd (linkItRows E raw) =
        concat (map (\<lambda>i. case linkItStep E (attendanceYearFromFile E raw) i (raw ! i) of
                           Failed e \<Rightarrow> [e] | _ \<Rightarrow> [])
                    [8..<length raw])
   \<and> snd (standardRows E raw h hdrs) =
        concat (map (\<lambda>i. case standardStep E (attendanceYearFromFile E raw) hdrs i (raw ! i) of
                           Failed e \<Rightarrow> [e] | _ \<Rightarrow> [])
                    [h + 1..<length raw])
   \<and> linkItStep E year i r =
        (if rowIgnored r then Skipped else buildRecord E year i (linkItCells r))
   \<and> standardStep E year hdrs i r =
        (if rowIgnored r then Skipped
         else buildRecord E year i
                (standardCells (getValue (buildColumnMap hdrs)
                   (att_findBestColumnMatches hdrs attendanceColumns) r)))
   \<and> linkItCells r =
        \<lparr>studentId = cell r 2, resultDate = cell r 19, totalDaysPresent = cell r 22,
         totalDaysPossible = cell r 23, fyAbsencesTotal = cell r 24, fyAbsencesExcused = cell r 25,
         fyAbsencesUnexcused = cell r 26, fyTardiesTotal = cell r 27,
         dailyAttendanceRate = cell r 21, mp1AttendanceRate = cell r 32,
         mp2AttendanceRate = cell r 43, mp3AttendanceRate = cell r 54,
         mp4AttendanceRate = cell r 65\<rparr>
   \<and> (\<not> truthy (studentId c) \<longrightarrow>
         buildRecord E year i c = Failed (rowLabel i @ ''Missing student ID''))
   \<and> (truthy (studentId c) \<and> find (\<lambda>s. s_school_student_id s = Some (ToString (studentId c))) (students E) = None \<longrightarrow>
         buildRecord E year i c =
           Failed (rowLabel i @ ''Student with ID '' @ ToString (studentId c) @ '' not found''))
   \<and> (truthy (studentId c) \<and> find (\<lambda>s. s_school_student_id s = Some (ToString (studentId c))) (students E) \<noteq> None \<and>
       (\<not> truthy (resultDate c) \<or> \<not> truthy (totalDaysPresent c) \<or> \<not> truthy (totalDaysPossible c) \<or> \<not> truthy (fyAbsencesTotal c) \<or> \<not> truthy (fyAbsencesExcused c) \<or> \<not> truthy (fyAbsencesUnexcused c) \<or> \<not> truthy (fyTardiesTotal c)) \<longrightarrow>
         buildRecord E year i c = Failed (rowLabel i @ ''Missing required attendance data''))
   \<and> (truthy (studentId c) \<and> find (\<lambda>s. s_school_student_id s = Some (ToString (studentId c))) (students E) \<noteq> None \<and>
       truthy (resultDate c) \<and> truthy (totalDaysPresent c) \<and> truthy (totalDaysPossible c) \<and> truthy (fyAbsencesTotal c) \<and> truthy (fyAbsencesExcused c) \<and> truthy (fyAbsencesUnexcused c) \<and> truthy (fyTardiesTotal c) \<and>
       nativeDate E (resultDate c) = None \<and>
       length (splitOn (\<lambda>ch. ch = CHR ''/'' \<or> ch = CHR ''-'') (ToString (resultDate c))) \<noteq> 3 \<longrightarrow>
         buildRecord E year i c =
           Failed (rowLabel i @ ''Invalid date format '' @ ToString (resultDate c)))
   \<and> ((\<exists>e. buildRecord E year i c = Failed e) \<longleftrightarrow>
        (\<not> truthy (studentId c)
         \<or> find (\<lambda>s. s_school_student_id s = Some (ToString (studentId c))) (students E) = None
         \<or> \<not> truthy (resultDate c)
         \<or> \<not> truthy (totalDaysPresent c)
         \<or> \<not> truthy (totalDaysPossible c)
         \<or> \<not> truthy (fyAbsencesTotal c)
         \<or> \<not> truthy (fyAbsencesExcused c)
         \<or> \<not> truthy (fyAbsencesUnexcused c)
         \<or> \<not> truthy (fyTardiesTotal c)
         \<or> (nativeDate E (resultDate c) = None \<and> length (splitOn (\<lambda>ch. ch = CHR ''/'' \<or> ch = CHR ''-'') (ToString (resultDate c))) \<noteq> 3)))
   \<and> (buildRecord E year i c = Failed e \<longrightarrow>
         e \<in> set [rowLabel i @ ''Missing student ID'',
                       rowLabel i @ ''Student with ID '' @ ToString (studentId c) @ '' not found'',
                       rowLabel i @ ''Missing required attendance data'',
                       rowLabel i @ ''Invalid date format '' @ ToString (resultDate c)])
   \<and> rowLabel i = ''Row '' @ decimalDigits (i + 1) @ '': ''
   \<and> (8 \<le> i \<and> i < length raw \<and> \<not> rowIgnored (raw ! i) \<and>
       (\<not> truthy (studentId (linkItCells (raw ! i)))
         \<or> find (\<lambda>s. s_school_student_id s = Some (ToString (studentId (linkItCells (raw ! i))))) (students E) = None
         \<or> \<not> truthy (resultDate (linkItCells (raw ! i)))
         \<or> \<not> truthy (totalDaysPresent (linkItCells (raw ! i)))
         \<or> \<not> truthy (totalDaysPossible (linkItCells (raw ! i)))
         \<or> \<not> truthy (fyAbsencesTotal (linkItCells (raw ! i)))
         \<or> \<not> truthy (fyAbsencesExcused (linkItCells (raw ! i)))
         \<or> \<not> truthy (fyAbsencesUnexcused (linkItCells (raw ! i)))
         \<or> \<not> truthy (fyTardiesTotal (linkItCells (raw ! i)))
         \<or> (nativeDate E (resultDate (linkItCells (raw ! i))) = None \<and> length (splitOn (\<lambda>ch. ch = CHR ''/'' \<or> ch = CHR ''-'') (ToString (resultDate (linkItCells (raw ! i))))) \<noteq> 3)) \<longrightarrow>
         snd (linkItRows E raw) \<noteq> [] \<and>
         processLinkItFormat E raw st = st\<lparr>error := Some (join [CHR 0x0A] (take 10 (snd (linkItRows E raw))))\<rparr> \<and>
         cachedData (processLinkItFormat E raw st) = cachedData st \<and>
         onUpdate_calls (processLinkItFormat E raw st) = onUpdate_calls st)
   \<and> (findHeaderRow raw = Some h \<and> raw ! h = Arr hs \<and> hs \<noteq> [] \<and> list_all isString hs \<and>
       h < i \<and> i < length raw \<and> \<not> rowIgnored (raw ! i) \<and>
       (\<not> truthy (studentId (standardCells (getValue (buildColumnMap (map ToString hs)) (att_findBestColumnMatches (map ToString hs) attendanceColumns) (raw ! i))))
         \<or> find (\<lambda>s. s_school_student_id s = Some (ToString (studentId (standardCells (getValue (buildColumnMap (map ToString hs)) (att_findBestColumnMatches (map ToString hs) attendanceColumns) (raw ! i)))))) (students E) = None
         \<or> \<not> truthy (resultDate (standardCells (getValue (buildColumnMap (map ToString hs)) (att_findBestColumnMatches (map ToString hs) attendanceColumns) (raw ! i))))
         \<or> \<not> truthy (totalDaysPresent (standardCells (getValue (buildColumnMap (map ToString hs)) (att_findBestColumnMatches (map ToString hs) attendanceColumns) (raw ! i))))
         \<or> \<not> truthy (totalDaysPossible (standardCells (getValue (buildColumnMap (map ToString hs)) (att_findBestColumnMatches (map ToString hs) attendanceColumns) (raw ! i))))
         \<or> \<not> truthy (fyAbsencesTotal (standardCells (getValue (buildColumnMap (map ToString hs)) (att_findBestColumnMatches (map ToString hs) attendanceColumns) (raw ! i))))
         \<or> \<not> truthy (fyAbsencesExcused (standardCells (getValue (buildColumnMap (map ToString hs)) (att_findBestColumnMatches (map ToString hs) attendanceColumns) (raw ! i))))
         \<or> \<not> truthy (fyAbsencesUnexcused (standardCells (getValue (buildColumnMap (map ToString hs)) (att_findBestColumnMatches (map ToString hs) attendanceColumns) (raw ! i))))
         \<or> \<not> truthy (fyTardiesTotal (standardCells (getValue (buildColumnMap (map ToString hs)) (att_findBestColumnMatches (map ToString hs) attendanceColumns) (raw ! i))))
         \<or> (nativeDate E (resultDate (standardCells (getValue (buildColumnMap (map ToString hs)) (att_findBestColumnMatches (map ToString hs) attendanceColumns) (raw ! i)))) = None \<and> length (splitOn (\<lambda>ch. ch = CHR ''/'' \<or> ch = CHR ''-'') (ToString (resultDate (standardCells (getValue (buildColumnMap (map ToString hs)) (att_findBestColumnMatches (map ToString hs) attendanceColumns) (raw ! i)))))) \<noteq> 3)) \<longrightarrow>
         snd (standardRows E raw h (map ToString hs)) \<noteq> [] \<and>
         processStandardFormat E raw st = Inr (st\<lparr>error := Some (join [CHR 0x0A] (take 10 (snd (standardRows E raw h (map ToString hs)))))\<rparr>))
   \<and> (snd (linkItRows E raw) \<noteq> [] \<longrightarrow>
         processLinkItFormat E raw st = st\<lparr>error := Some (join [CHR 0x0A] (take 10 (snd (linkItRows E raw))))\<rparr>)
   \<and> (findHeaderRow raw = Some h \<and> raw ! h = Arr hs \<and> hs \<noteq> [] \<and> list_all isString hs \<and>
       snd (standardRows E raw h (map ToString hs)) \<noteq> [] \<longrightarrow>
         processStandardFormat E raw st = Inr (st\<lparr>error := Some (join [CHR 0x0A] (take 10 (snd (standardRows E raw h (map ToString hs)))))\<rparr>))
   \<and> (isLinkItFormat raw \<and> snd (linkItRows E raw) \<noteq> [] \<longrightarrow>
         cachedData (handleBulkImport E raw st) = cachedData st \<and>
         onUpdate_calls (handleBulkImport E raw st) = onUpdate_calls st \<and>
         error (handleBulkImport E raw st) = Some (join [CHR 0x0A] (take 10 (snd (linkItRows E raw)))))
   \<and> (\<not> isLinkItFormat raw \<and> findHeaderRow raw = Some h \<and> raw ! h = Arr hs \<and> hs \<noteq> [] \<and> list_all isString hs \<and>
       snd (standardRows E raw h (map ToString hs)) \<noteq> [] \<longrightarrow>
         cachedData (handleBulkImport E raw st) = cachedData st \<and>
         onUpdate_calls (handleBulkImport E raw st) = onUpdate_calls st \<and>
         error (handleBulkImport E raw st) = Some (join [CHR 0x0A] (take 10 (snd (standardRows E raw h (map ToString hs))))))"
  by (intro conjI) (rule att_errs_link att_errs_std att_step_link att_step_std att_cells_link row_no_id row_unknown row_missing row_bad_date row_fail_iff row_failed_msgs row_label att_rej_link_defect att_rej_std_defect att_rej_link att_rej_std att_bulk_link att_bulk_std)+

theorem attendance_import_is_all_or_nothing_witness:
  "isLinkItFormat linkItSheet
   \<and> length (fst (linkItRows exampleEnv linkItSheet)) = 1
   \<and> snd (linkItRows exampleEnv linkItSheet) =
       [''Row 10: Missing student ID'', ''Row 11: Student with ID S9 not found'',
        ''Row 12: Missing required attendance data'', ''Row 13: Invalid date format soon'']
   \<and> processLinkItFormat exampleEnv linkItSheet exampleAttState =
       exampleAttState\<lparr>error := Some (join [CHR 0x0A]
         [''Row 10: Missing student ID'', ''Row 11: Student with ID S9 not found'',
          ''Row 12: Missing required attendance data'', ''Row 13: Invalid date format soon''])\<rparr>
   \<and> cachedData (handleBulkImport exampleEnv linkItSheet exampleAttState) = []
   \<and> onUpdate_calls (handleBulkImport exampleEnv linkItSheet exampleAttState) = []
   \<and> \<not> isLinkItFormat standardSheet \<and> findHeaderRow standardSheet = Some 0
   \<and> length (fst (standardRows exampleEnv standardSheet 0 (map ToString standardHeaders))) = 1
   \<and> snd (standardRows exampleEnv standardSheet 0 (map ToString standardHeaders)) =
       [''Row 3: Missing student ID'', ''Row 4: Student with ID S9 not found'',
        ''Row 5: Missing required attendance data'', ''Row 6: Invalid date format soon'']
   \<and> processStandardFormat exampleEnv standardSheet exampleAttState =
       Inr (exampleAttState\<lparr>error := Some (join [CHR 0x0A]
         [''Row 3: Missing student ID'', ''Row 4: Student with ID S9 not found'',
          ''Row 5: Missing required attendance data'', ''Row 6: Invalid date format soon''])\<rparr>)
   \<and> cachedData (handleBulkImport exampleEnv standardSheet exampleAttState) = []
   \<and> onUpdate_calls (handleBulkImport exampleEnv standardSheet exampleAttState) = []"
proof -
  note thm_link = attendance_import_is_all_or_nothing
    [where E = exampleEnv and raw = linkItSheet and i = 11 and st = exampleAttState]
  note thm_std = attendance_import_is_all_or_nothing
    [where E = exampleEnv and raw = standardSheet and i = 5 and st = exampleAttState and h = 0
       and hs = standardHeaders]
  have l0: "isLinkItFormat linkItSheet"
    by code_simp
  have l: "linkItRows exampleEnv linkItSheet =
      ([\<lparr>student_id = ''u-1'', school_id = ''school-1'', record_date = ''2024-01-05'',
         total_days_present = JNum 170, total_days_possible = JNum 180,
         fy_absences_total = JNum 10, fy_absences_excused = JNum 6,
         fy_absences_unexcused = JNum 4, fy_tardies_total = JNum 2,
         attendance_year = Some ''2023-2024'', extra_data = None\<rparr>],
       [''Row 10: Missing student ID'', ''Row 11: Student with ID S9 not found'',
        ''Row 12: Missing required attendance data'', ''Row 13: Invalid date format soon''])"
    by code_simp
  have l1: "(8::nat) \<le> 11 \<and> 11 < length linkItSheet \<and> \<not> rowIgnored (linkItSheet ! 11) \<and>
      \<not> truthy (fyAbsencesTotal (linkItCells (linkItSheet ! 11)))"
    by code_simp
  from thm_link l1 have l2: "processLinkItFormat exampleEnv linkItSheet exampleAttState =
      exampleAttState\<lparr>error :=
        Some (join [CHR 0x0A] (take 10 (snd (linkItRows exampleEnv linkItSheet))))\<rparr>"
    by blast
  from thm_link l0 l have l3:
    "cachedData (handleBulkImport exampleEnv linkItSheet exampleAttState) = cachedData exampleAttState"
    "onUpdate_calls (handleBulkImport exampleEnv linkItSheet exampleAttState) =
       onUpdate_calls exampleAttState"
    by simp_all
  have s0: "\<not> isLinkItFormat standardSheet" "findHeaderRow standardSheet = Some 0"
    by code_simp+
  have s1: "standardSheet ! 0 = Arr standardHeaders" "standardHeaders \<noteq> []"
    "list_all isString standardHeaders"
    by (simp_all add: standardSheet_def standardHeaders_def isString_def)
  have s: "standardRows exampleEnv standardSheet 0 (map ToString standardHeaders) =
      ([\<lparr>student_id = ''u-1'', school_id = ''school-1'', record_date = ''2024-01-05'',
         total_days_present = JNum 170, total_days_possible = JNum 180,
         fy_absences_total = JNum 10, fy_absences_excused = JNum 6,
         fy_absences_unexcused = JNum 4, fy_tardies_total = JNum 2,
         attendance_year = Some ''2024-2025'', extra_data = None\<rparr>],
       [''Row 3: Missing student ID'', ''Row 4: Student with ID S9 not found'',
        ''Row 5: Missing required attendance data'', ''Row 6: Invalid date format soon''])"
    by code_simp
  have s2: "(0::nat) < 5 \<and> 5 < length standardSheet \<and> \<not> rowIgnored (standardSheet ! 5)"
    by code_simp
  have s3: "nativeDate exampleEnv (resultDate (standardCells (getValue
        (buildColumnMap (map ToString standardHeaders))
        (att_findBestColumnMatches (map ToString standardHeaders) attendanceColumns)
        (standardSheet ! 5)))) = None \<and>
      length (splitOn (\<lambda>ch. ch = CHR ''/'' \<or> ch = CHR ''-'') (ToString (resultDate (standardCells
        (getValue (buildColumnMap (map ToString standardHeaders))
        (att_findBestColumnMatches (map ToString standardHeaders) attendanceColumns)
        (standardSheet ! 5)))))) \<noteq> 3"
    by code_simp
  from thm_std s0 s1 s2 s3 have s4: "processStandardFormat exampleEnv standardSheet exampleAttState =
      Inr (exampleAttState\<lparr>error := Some (join [CHR 0x0A]
        (take 10 (snd (standardRows exampleEnv standardSheet 0 (map ToString standardHeaders)))))\<rparr>)"
    by blast
  from thm_std s0 s1 s have s5:
    "cachedData (handleBulkImport exampleEnv standardSheet exampleAttState) = cachedData exampleAttState"
    "onUpdate_calls (handleBulkImport exampleEnv standardSheet exampleAttState) =
       onUpdate_calls exampleAttState"
    by simp_all
  have st: "cachedData exampleAttState = []" "onUpdate_calls exampleAttState = []"
    by (simp_all add: exampleAttState_def)
  from l0 l l2 l3 s0 s s4 s5 st show ?thesis
    by simp
qed

end
